theory Spec2Isabelle
  imports Complex_Main
begin

section \<open>JavaScript values\<close>

text \<open>
  The handlers of \<^verbatim>\<open>index.js\<close> work on the values that \<^verbatim>\<open>JSON.parse\<close> delivers (the
  request body and the content of \<^verbatim>\<open>listings.json\<close>) and on the one number that
  \<^verbatim>\<open>Number(price)\<close> computes. A number is a double: a finite one is kept as the
  rational it denotes, and the three values that are not finite are constructors of
  their own, because \<^verbatim>\<open>JSON.stringify\<close> treats them differently. \<open>Finite 0\<close> stands for
  both zeros.
\<close>

datatype number = Finite rat | NaN | PosInfinity | NegInfinity

datatype jsval =
    JUndefined
  | JNull
  | JBool bool
  | JNum number
  | JStr string
  | JArr "jsval list"
  | JObj "(string \<times> jsval) list"

text \<open>What a handler's \<^verbatim>\<open>catch\<close> can receive.\<close>

datatype error = ReadError | WriteError | TypeError

text \<open>\<^verbatim>\<open>!v\<close> is \<open>\<not> ToBoolean v\<close>; \<^verbatim>\<open>a || b\<close> is \<open>if ToBoolean a then a else b\<close>.\<close>

fun ToBoolean :: "jsval \<Rightarrow> bool" where
  "ToBoolean JUndefined = False"
| "ToBoolean JNull = False"
| "ToBoolean (JBool b) = b"
| "ToBoolean (JNum n) = (n \<noteq> Finite 0 \<and> n \<noteq> NaN)"
| "ToBoolean (JStr s) = (s \<noteq> [])"
| "ToBoolean (JArr xs) = True"
| "ToBoolean (JObj kvs) = True"

definition or_else :: "jsval \<Rightarrow> jsval \<Rightarrow> jsval" where
  "or_else a b = (if ToBoolean a then a else b)"

text \<open>
  What a reader gets back after \<^verbatim>\<open>JSON.stringify\<close>: a number that is not finite is
  written as \<^verbatim>\<open>null\<close>, an undefined array element as \<^verbatim>\<open>null\<close>, and a property whose
  value is undefined is left out. (A property left out reads as undefined again, so
  \<open>JUndefined\<close> stays as it is at the top.)
\<close>

fun json_roundtrip :: "jsval \<Rightarrow> jsval" where
  "json_roundtrip (JNum (Finite r)) = JNum (Finite r)"
| "json_roundtrip (JNum n) = JNull"
| "json_roundtrip (JArr xs) =
     JArr (map (\<lambda>x. if x = JUndefined then JNull else json_roundtrip x) xs)"
| "json_roundtrip (JObj kvs) =
     JObj (map (\<lambda>kv. (fst kv, json_roundtrip (snd kv)))
            (filter (\<lambda>kv. snd kv \<noteq> JUndefined) kvs))"
| "json_roundtrip v = v"

text \<open>Reading the property \<open>k\<close> of a parsed object; anything else has no such property.\<close>

fun get_prop :: "jsval \<Rightarrow> string \<Rightarrow> jsval" where
  "get_prop (JObj kvs) k = (case map_of kvs k of None \<Rightarrow> JUndefined | Some v \<Rightarrow> v)"
| "get_prop v k = JUndefined"


section \<open>Conversions of the platform used by \<^verbatim>\<open>POST /listings\<close>\<close>

subsection \<open>\<^verbatim>\<open>Date.now().toString()\<close> and \<^verbatim>\<open>new Date().toISOString()\<close>\<close>

text \<open>
  Time values are milliseconds since the epoch. A clock reading is far below \<open>10\<^sup>2\<^sup>1\<close>,
  where \<^verbatim>\<open>toString\<close> of a number is its plain decimal notation.
\<close>

text \<open>The decimal digits of a number that is not negative.\<close>

function decimal :: "int \<Rightarrow> string" where
  "decimal n =
     (if n < 10 then [char_of (48 + n)]
      else decimal (n div 10) @ [char_of (48 + n mod 10)])"
  by pat_completeness auto
termination
  by (relation "measure nat") auto

definition toString :: "int \<Rightarrow> string" where
  "toString t = (if t < 0 then CHR ''-'' # decimal (- t) else decimal t)"

definition pad :: "nat \<Rightarrow> int \<Rightarrow> string" where
  "pad w n = replicate (w - length (decimal n)) CHR ''0'' @ decimal n"

text \<open>The civil date (year, month, day) of a day number counted from 1970-01-01.\<close>

definition civil_from_days :: "int \<Rightarrow> int \<times> int \<times> int" where
  "civil_from_days days =
     (let z = days + 719468;
          era = z div 146097;
          doe = z mod 146097;
          yoe = (doe - doe div 1460 + doe div 36524 - doe div 146096) div 365;
          doy = doe - (365 * yoe + yoe div 4 - yoe div 100);
          mp = (5 * doy + 2) div 153;
          d = doy - (153 * mp + 2) div 5 + 1;
          m = (if mp < 10 then mp + 3 else mp - 9);
          y = yoe + era * 400 + (if m \<le> 2 then 1 else 0)
      in (y, m, d))"

definition toISOString :: "int \<Rightarrow> string" where
  "toISOString t =
     (let ms = t mod 86400000;
          (y, m, d) = civil_from_days (t div 86400000);
          year = (if 0 \<le> y \<and> y \<le> 9999 then pad 4 y
                  else (if y < 0 then ''-'' else ''+'') @ pad 6 \<bar>y\<bar>)
      in year @ ''-'' @ pad 2 m @ ''-'' @ pad 2 d @ ''T'' @ pad 2 (ms div 3600000) @ '':''
         @ pad 2 (ms div 60000 mod 60) @ '':'' @ pad 2 (ms div 1000 mod 60) @ ''.''
         @ pad 3 (ms mod 1000) @ ''Z'')"


subsection \<open>\<^verbatim>\<open>Number(v)\<close>\<close>

text \<open>
  A string is kept as its UTF-8 bytes. \<open>StrWhiteSpaceChar\<close> lists the white space and
  line terminators of the language: TAB, LF, VT, FF, CR, SP, U+00A0, U+1680,
  U+2000 to U+200A, U+2028, U+2029, U+202F, U+205F, U+3000 and U+FEFF.
\<close>

definition StrWhiteSpaceChar :: "string list" where
  "StrWhiteSpaceChar =
     [[CHR 0x09], [CHR 0x0A], [CHR 0x0B], [CHR 0x0C], [CHR 0x0D], [CHR 0x20],
      [CHR 0xC2, CHR 0xA0], [CHR 0xE1, CHR 0x9A, CHR 0x80],
      [CHR 0xE2, CHR 0x80, CHR 0x80], [CHR 0xE2, CHR 0x80, CHR 0x81],
      [CHR 0xE2, CHR 0x80, CHR 0x82], [CHR 0xE2, CHR 0x80, CHR 0x83],
      [CHR 0xE2, CHR 0x80, CHR 0x84], [CHR 0xE2, CHR 0x80, CHR 0x85],
      [CHR 0xE2, CHR 0x80, CHR 0x86], [CHR 0xE2, CHR 0x80, CHR 0x87],
      [CHR 0xE2, CHR 0x80, CHR 0x88], [CHR 0xE2, CHR 0x80, CHR 0x89],
      [CHR 0xE2, CHR 0x80, CHR 0x8A], [CHR 0xE2, CHR 0x80, CHR 0xA8],
      [CHR 0xE2, CHR 0x80, CHR 0xA9], [CHR 0xE2, CHR 0x80, CHR 0xAF],
      [CHR 0xE2, CHR 0x81, CHR 0x9F], [CHR 0xE3, CHR 0x80, CHR 0x80],
      [CHR 0xEF, CHR 0xBB, CHR 0xBF]]"

function skip_ws :: "string \<Rightarrow> string" where
  "skip_ws s =
     (case List.find (\<lambda>w. w \<noteq> [] \<and> take (length w) s = w) StrWhiteSpaceChar of
        None \<Rightarrow> s
      | Some w \<Rightarrow> skip_ws (drop (length w) s))"
  by pat_completeness auto
termination
proof (relation "measure length")
  fix s w
  assume "List.find (\<lambda>w. w \<noteq> [] \<and> take (length w) s = w) StrWhiteSpaceChar = Some w"
  then have "w \<noteq> [] \<and> take (length w) s = w"
    by (auto simp: find_Some_iff)
  then have "s \<noteq> []" "0 < length w"
    by auto
  then show "(drop (length w) s, s) \<in> measure length"
    by simp
qed simp

definition is_digit :: "nat \<Rightarrow> char \<Rightarrow> bool" where
  "is_digit base c =
     (let n = (of_char c :: nat) in
      (48 \<le> n \<and> n < 48 + min base 10)
      \<or> (base = 16 \<and> ((97 \<le> n \<and> n \<le> 102) \<or> (65 \<le> n \<and> n \<le> 70))))"

definition digit_value :: "char \<Rightarrow> int" where
  "digit_value c =
     (let n = (of_char c :: int) in
      if n \<ge> 97 then n - 87 else if n \<ge> 65 then n - 55 else n - 48)"

definition digits_value :: "int \<Rightarrow> string \<Rightarrow> int" where
  "digits_value base ds = foldl (\<lambda>a c. a * base + digit_value c) 0 ds"

definition is_digits :: "nat \<Rightarrow> string \<Rightarrow> bool" where
  "is_digits base ds = (ds \<noteq> [] \<and> list_all (is_digit base) ds)"

definition pow10 :: "int \<Rightarrow> rat" where
  "pow10 e = (if 0 \<le> e then 10 ^ nat e else 1 / 10 ^ nat (- e))"

text \<open>\<open>SignedInteger\<close> of an exponent part.\<close>

definition SignedInteger :: "string \<Rightarrow> int option" where
  "SignedInteger t =
     (case t of
        [] \<Rightarrow> None
      | c # ds \<Rightarrow>
          if c = CHR ''+'' then (if is_digits 10 ds then Some (digits_value 10 ds) else None)
          else if c = CHR ''-'' then
            (if is_digits 10 ds then Some (- digits_value 10 ds) else None)
          else if is_digits 10 t then Some (digits_value 10 t) else None)"

text \<open>
  \<open>StrUnsignedDecimalLiteral\<close> other than \<^verbatim>\<open>Infinity\<close>: digits, an optional point with
  digits on at least one side of it, an optional exponent.
\<close>

definition UnsignedDecimal :: "string \<Rightarrow> rat option" where
  "UnsignedDecimal u =
     (let ip = takeWhile (is_digit 10) u;
          r1 = dropWhile (is_digit 10) u;
          fp = (case r1 of [] \<Rightarrow> [] | c # t \<Rightarrow>
                  if c = CHR ''.'' then takeWhile (is_digit 10) t else []);
          r2 = (case r1 of [] \<Rightarrow> [] | c # t \<Rightarrow>
                  if c = CHR ''.'' then dropWhile (is_digit 10) t else r1);
          ex = (case r2 of [] \<Rightarrow> Some 0 | c # t \<Rightarrow>
                  if c = CHR ''e'' \<or> c = CHR ''E'' then SignedInteger t else None)
      in if ip = [] \<and> fp = [] then None
         else map_option
                (\<lambda>e. of_int (digits_value 10 (ip @ fp)) * pow10 (e - int (length fp))) ex)"

text \<open>
  The double nearest to a mathematical value, ties to the even significand. A double
  is a multiple \<open>m * 2\<^sup>p\<close> with \<open>m < 2\<^sup>5\<^sup>3\<close>; for a value between \<open>2\<^sup>e\<close> and \<open>2\<^sup>e\<^sup>+\<^sup>1\<close>
  the step \<open>2\<^sup>p\<close> has \<open>p = e - 52\<close>, and \<open>p = - 1074\<close> below \<open>2\<^sup>-\<^sup>1\<^sup>0\<^sup>2\<^sup>2\<close>. A result of
  \<open>2\<^sup>1\<^sup>0\<^sup>2\<^sup>4\<close> or more is an infinity.
\<close>

definition pow2 :: "int \<Rightarrow> rat" where
  "pow2 e = (if 0 \<le> e then 2 ^ nat e else 1 / 2 ^ nat (- e))"

text \<open>The integer \<open>k\<close> with \<open>2\<^sup>k \<le> n < 2\<^sup>k\<^sup>+\<^sup>1\<close>, for \<open>n\<close> at least 1.\<close>

function ilog2 :: "int \<Rightarrow> int" where
  "ilog2 n = (if n < 2 then 0 else 1 + ilog2 (n div 2))"
  by pat_completeness auto
termination
  by (relation "measure nat") auto

text \<open>The integer \<open>e\<close> with \<open>2\<^sup>e \<le> r < 2\<^sup>e\<^sup>+\<^sup>1\<close>, for a positive \<open>r\<close>.\<close>

definition exponent :: "rat \<Rightarrow> int" where
  "exponent r =
     (let (a, b) = quotient_of r;
          d = ilog2 a - ilog2 b
      in if pow2 d \<le> r then d else d - 1)"

definition round_half_even :: "rat \<Rightarrow> int" where
  "round_half_even k =
     (let n = \<lfloor>k\<rfloor>;
          f = k - of_int n
      in if f < 1 / 2 then n
         else if 1 / 2 < f then n + 1
         else if even n then n else n + 1)"

definition round_double :: "rat \<Rightarrow> rat" where
  "round_double a =
     (let p = max (exponent a) (- 1022) - 52
      in of_int (round_half_even (a / pow2 p)) * pow2 p)"

definition RoundMVResult :: "rat \<Rightarrow> number" where
  "RoundMVResult r =
     (if r = 0 then Finite 0
      else if 2 ^ 1024 \<le> round_double \<bar>r\<bar>
      then (if r < 0 then NegInfinity else PosInfinity)
      else Finite (if r < 0 then - round_double \<bar>r\<bar> else round_double \<bar>r\<bar>))"

definition StrDecimalLiteral :: "string \<Rightarrow> number" where
  "StrDecimalLiteral l =
     (let neg = (l \<noteq> [] \<and> hd l = CHR ''-'');
          u = (if l \<noteq> [] \<and> (hd l = CHR ''-'' \<or> hd l = CHR ''+'') then tl l else l)
      in if u = ''Infinity'' then (if neg then NegInfinity else PosInfinity)
         else (case UnsignedDecimal u of
                 None \<Rightarrow> NaN
               | Some r \<Rightarrow> RoundMVResult (if neg then - r else r)))"

definition NonDecimalIntegerLiteral :: "string \<Rightarrow> number option" where
  "NonDecimalIntegerLiteral l =
     (case l of
        z # x # ds \<Rightarrow>
          (let base = (if x = CHR ''b'' \<or> x = CHR ''B'' then 2
                       else if x = CHR ''o'' \<or> x = CHR ''O'' then 8
                       else if x = CHR ''x'' \<or> x = CHR ''X'' then 16 else (0::nat))
           in if z = CHR ''0'' \<and> base \<noteq> 0 \<and> is_digits base ds
              then Some (RoundMVResult (of_int (digits_value (int base) ds))) else None)
      | _ \<Rightarrow> None)"

text \<open>
  \<open>StringToNumber\<close>: white space, then nothing (the value is 0) or one numeric literal,
  then white space; any other string is \<open>NaN\<close>.
\<close>

definition is_ws_start :: "char \<Rightarrow> bool" where
  "is_ws_start c = (c \<in> set (map hd StrWhiteSpaceChar))"

definition StringToNumber :: "string \<Rightarrow> number" where
  "StringToNumber s =
     (let t = skip_ws s;
          l = takeWhile (\<lambda>c. \<not> is_ws_start c) t;
          r = dropWhile (\<lambda>c. \<not> is_ws_start c) t
      in if skip_ws r \<noteq> [] then NaN
         else if l = [] then Finite 0
         else (case NonDecimalIntegerLiteral l of
                 Some n \<Rightarrow> n
               | None \<Rightarrow> StrDecimalLiteral l))"

text \<open>
  \<open>ToString\<close> of a value throws exactly when it meets an object with a property of its
  own named \<^verbatim>\<open>toString\<close> (a parsed value is never callable, and the inherited
  \<^verbatim>\<open>valueOf\<close> returns the object): directly, or as an element while joining an array.
\<close>

fun ToString_throws :: "jsval \<Rightarrow> bool" where
  "ToString_throws (JObj kvs) = (''toString'' \<in> set (map fst kvs))"
| "ToString_throws (JArr xs) = (\<exists>x \<in> set xs. ToString_throws x)"
| "ToString_throws v = False"

text \<open>
  \<^verbatim>\<open>Number(v)\<close>. An object without a \<^verbatim>\<open>toString\<close> of its own becomes
  \<^verbatim>\<open>"[object Object]"\<close>, an array the join of its elements with commas (\<^verbatim>\<open>null\<close> and
  undefined elements as the empty string), and the string is then read as a number: a
  string with a comma is not one.
\<close>

fun Number :: "jsval \<Rightarrow> error + number" where
  "Number JUndefined = Inr NaN"
| "Number JNull = Inr (Finite 0)"
| "Number (JBool b) = Inr (Finite (if b then 1 else 0))"
| "Number (JNum n) = Inr n"
| "Number (JStr s) = Inr (StringToNumber s)"
| "Number (JObj kvs) = (if ToString_throws (JObj kvs) then Inl TypeError else Inr NaN)"
| "Number (JArr []) = Inr (Finite 0)"
| "Number (JArr [x]) =
     (case x of
        JUndefined \<Rightarrow> Inr (Finite 0)
      | JNull \<Rightarrow> Inr (Finite 0)
      | JBool b \<Rightarrow> Inr NaN
      | JNum n \<Rightarrow> Inr n
      | JStr s \<Rightarrow> Inr (StringToNumber s)
      | JArr ys \<Rightarrow> Number (JArr ys)
      | JObj kvs \<Rightarrow> Number (JObj kvs))"
| "Number (JArr (x # y # zs)) =
     (if ToString_throws (JArr (x # y # zs)) then Inl TypeError else Inr NaN)"


section \<open>The listing record and the store\<close>

text \<open>
  One record of the collection; \<open>id_of\<close> is its field \<^verbatim>\<open>id\<close>. The fields that a request
  body supplies hold whatever value the body had there; \<^verbatim>\<open>likes\<close> is a counter that starts
  at 0 and is only ever incremented: a double whose value is a natural number.
\<close>

record listing =
  id_of :: string
  title :: jsval
  price :: jsval
  description :: jsval
  contact :: jsval
  imageUrl :: jsval
  likes :: nat
  sold :: bool
  createdAt :: string

text \<open>
  \<^verbatim>\<open>listings.json\<close> is missing (or cannot be read), or holds text that is not JSON, or
  holds the array of listings that the handlers write.
\<close>

datatype listings_file = Missing | Corrupt | Document "listing list"

text \<open>
  The file system as the handlers see it: the file, what \<^verbatim>\<open>fs.writeFile\<close> will do
  (\<open>None\<close>: it succeeds; \<open>Some d\<close>: it rejects and leaves \<open>d\<close> behind), and how many times
  \<^verbatim>\<open>fs.writeFile\<close> has been called.
\<close>

record fs =
  doc :: listings_file
  write_error :: "listings_file option"
  writes :: nat

text \<open>
  The two source files differ in \<^verbatim>\<open>readListings\<close>: \<^verbatim>\<open>index.js\<close> catches the failure and
  returns the empty array, \<^verbatim>\<open>part_000\<close> lets it through.
\<close>

datatype variant = IndexJs | Part000

text \<open>\<^verbatim>\<open>fs.readFile\<close> followed by \<^verbatim>\<open>JSON.parse\<close>.\<close>

definition parse_file :: "fs \<Rightarrow> error + listing list" where
  "parse_file s = (case doc s of Document ls \<Rightarrow> Inr ls | Missing \<Rightarrow> Inl ReadError
                   | Corrupt \<Rightarrow> Inl ReadError)"

definition readListings :: "variant \<Rightarrow> fs \<Rightarrow> error + listing list" where
  "readListings v s =
     (case v of
        IndexJs \<Rightarrow> (case parse_file s of Inl e \<Rightarrow> Inr [] | Inr ls \<Rightarrow> Inr ls)
      | Part000 \<Rightarrow> parse_file s)"

text \<open>
  \<^verbatim>\<open>JSON.stringify\<close> of a listing, as it is read back: the fields that can hold any value
  go through \<open>json_roundtrip\<close>; a string, a counter and a boolean are written as they are.
\<close>

definition stringify_listing :: "listing \<Rightarrow> listing" where
  "stringify_listing l =
     l\<lparr>title := json_roundtrip (title l), price := json_roundtrip (price l),
       description := json_roundtrip (description l),
       contact := json_roundtrip (contact l),
       imageUrl := json_roundtrip (imageUrl l)\<rparr>"

text \<open>
  \<^verbatim>\<open>fs.writeFile\<close> of the serialised array. \<^verbatim>\<open>index.js\<close> logs a failure and throws it
  again, \<^verbatim>\<open>part_000\<close> just lets it through: the same for the caller.
\<close>

definition writeListings :: "listing list \<Rightarrow> fs \<Rightarrow> (error + unit) \<times> fs" where
  "writeListings listings s =
     (case write_error s of
        None \<Rightarrow> (Inr (), s\<lparr>doc := Document (map stringify_listing listings),
                            writes := Suc (writes s)\<rparr>)
      | Some d \<Rightarrow> (Inl WriteError, s\<lparr>doc := d, writes := Suc (writes s)\<rparr>))"

text \<open>A document is JSON when serialising it again changes nothing.\<close>

definition json_listing :: "listing \<Rightarrow> bool" where
  "json_listing l = (stringify_listing l = l)"

definition json_doc :: "listings_file \<Rightarrow> bool" where
  "json_doc f = (case f of Document ls \<Rightarrow> list_all json_listing ls | _ \<Rightarrow> True)"


section \<open>Responses\<close>

record response =
  status :: nat
  body :: jsval

text \<open>
  \<^verbatim>\<open>res.status(st).json(v)\<close>: the client reads \<open>v\<close> after \<^verbatim>\<open>JSON.stringify\<close>. \<open>failure m\<close> is
  the object \<^verbatim>\<open>{ success: false, message: m }\<close>, and \<open>listing_json l\<close> the listing \<open>l\<close> as an
  object.
\<close>

definition json :: "nat \<Rightarrow> jsval \<Rightarrow> response" where
  "json st v = \<lparr>status = st, body = json_roundtrip v\<rparr>"

definition failure :: "string \<Rightarrow> jsval" where
  "failure m = JObj [(''success'', JBool False), (''message'', JStr m)]"

definition listing_json :: "listing \<Rightarrow> jsval" where
  "listing_json l =
     JObj [(''id'', JStr (id_of l)), (''title'', title l), (''price'', price l),
           (''description'', description l), (''contact'', contact l),
           (''imageUrl'', imageUrl l), (''likes'', JNum (Finite (of_nat (likes l)))),
           (''sold'', JBool (sold l)), (''createdAt'', JStr (createdAt l))]"


section \<open>The handlers\<close>

text \<open>\<^verbatim>\<open>listings.findIndex(p)\<close>; \<^verbatim>\<open>listings.find(p)\<close> is the element at that index.\<close>

fun findIndex :: "('a \<Rightarrow> bool) \<Rightarrow> 'a list \<Rightarrow> nat option" where
  "findIndex p [] = None"
| "findIndex p (x # xs) =
     (if p x then Some 0 else map_option Suc (findIndex p xs))"

text \<open>\<^verbatim>\<open>listings.splice(index, 1)\<close>: the array without the element at \<open>index\<close>.\<close>

definition splice1 :: "nat \<Rightarrow> 'a list \<Rightarrow> 'a list" where
  "splice1 i xs = take i xs @ drop (Suc i) xs"

definition get_listings :: "variant \<Rightarrow> fs \<Rightarrow> response \<times> fs" where
  "get_listings v s =
     (case readListings v s of
        Inl e \<Rightarrow> (json 500 (failure ''Failed to read listings''), s)
      | Inr listings \<Rightarrow> (json 200 (JArr (map listing_json listings)), s))"

text \<open>
  \<^verbatim>\<open>POST /listings\<close>. \<open>now\<close> is what \<^verbatim>\<open>Date.now()\<close> returns and \<open>date\<close> the time value of
  \<^verbatim>\<open>new Date()\<close>; \<open>req_body\<close> holds the properties of the parsed request body.
\<close>

definition newListing :: "int \<Rightarrow> int \<Rightarrow> (string \<times> jsval) list \<Rightarrow> number \<Rightarrow> listing" where
  "newListing now date req_body n =
     \<lparr>id_of = toString now,
      title = get_prop (JObj req_body) ''title'',
      price = JNum n,
      description = get_prop (JObj req_body) ''description'',
      contact = get_prop (JObj req_body) ''contact'',
      imageUrl = or_else (get_prop (JObj req_body) ''imageUrl'') (JStr []),
      likes = 0,
      sold = False,
      createdAt = toISOString date\<rparr>"

definition post_listings ::
  "variant \<Rightarrow> int \<Rightarrow> int \<Rightarrow> (string \<times> jsval) list \<Rightarrow> fs \<Rightarrow> response \<times> fs" where
  "post_listings v now date req_body s =
     (if \<not> ToBoolean (get_prop (JObj req_body) ''title'')
         \<or> \<not> ToBoolean (get_prop (JObj req_body) ''price'')
         \<or> \<not> ToBoolean (get_prop (JObj req_body) ''description'')
         \<or> \<not> ToBoolean (get_prop (JObj req_body) ''contact'')
      then (json 400 (failure ''Missing required fields''), s)
      else
        (case readListings v s of
           Inl e \<Rightarrow> (json 500 (failure ''Failed to create listing''), s)
         | Inr listings \<Rightarrow>
             (case Number (get_prop (JObj req_body) ''price'') of
                Inl e \<Rightarrow> (json 500 (failure ''Failed to create listing''), s)
              | Inr n \<Rightarrow>
                  (case writeListings (listings @ [newListing now date req_body n]) s of
                     (Inl e, s') \<Rightarrow> (json 500 (failure ''Failed to create listing''), s')
                   | (Inr u, s') \<Rightarrow>
                       (json 201 (listing_json (newListing now date req_body n)), s')))))"

text \<open>
  \<^verbatim>\<open>listing.likes += 1\<close> adds in double precision. Below \<open>2\<^sup>5\<^sup>3\<close> every integer is a double and
  the sum is exact. From \<open>2\<^sup>5\<^sup>3\<close> to \<open>2\<^sup>5\<^sup>4\<close> the doubles are the even integers: the sum
  lies halfway between two of them and goes to the one with the even significand, which
  is the count itself when it is a multiple of 4 and the count plus 2 otherwise. From
  \<open>2\<^sup>5\<^sup>4\<close> on the doubles are 4 or more apart and the sum rounds back to the count.
\<close>

definition add_one :: "nat \<Rightarrow> nat" where
  "add_one n =
     (if n < 2 ^ 53 then n + 1
      else if n < 2 ^ 54 \<and> n mod 4 = 2 then n + 2
      else n)"

definition post_like :: "variant \<Rightarrow> string \<Rightarrow> fs \<Rightarrow> response \<times> fs" where
  "post_like v rid s =
     (case readListings v s of
        Inl e \<Rightarrow> (json 500 (failure ''Failed to like listing''), s)
      | Inr listings \<Rightarrow>
          (case findIndex (\<lambda>l. id_of l = rid) listings of
             None \<Rightarrow> (json 404 (failure ''Not found''), s)
           | Some i \<Rightarrow>
               (let listing = (listings ! i)\<lparr>likes := add_one (likes (listings ! i))\<rparr> in
                case writeListings (listings[i := listing]) s of
                  (Inl e, s') \<Rightarrow> (json 500 (failure ''Failed to like listing''), s')
                | (Inr u, s') \<Rightarrow>
                    (json 200 (JObj [(''success'', JBool True),
                                     (''likes'', JNum (Finite (of_nat (likes listing))))]),
                     s'))))"

definition post_buy :: "variant \<Rightarrow> string \<Rightarrow> fs \<Rightarrow> response \<times> fs" where
  "post_buy v rid s =
     (case readListings v s of
        Inl e \<Rightarrow> (json 500 (failure ''Failed to mark as sold''), s)
      | Inr listings \<Rightarrow>
          (case findIndex (\<lambda>l. id_of l = rid) listings of
             None \<Rightarrow> (json 404 (failure ''Not found''), s)
           | Some i \<Rightarrow>
               if sold (listings ! i) then (json 400 (failure ''Already sold''), s)
               else
                 (case writeListings (listings[i := (listings ! i)\<lparr>sold := True\<rparr>]) s of
                    (Inl e, s') \<Rightarrow> (json 500 (failure ''Failed to mark as sold''), s')
                  | (Inr u, s') \<Rightarrow>
                      (json 200 (JObj [(''success'', JBool True), (''sold'', JBool True)]),
                       s'))))"

text \<open>\<^verbatim>\<open>DELETE /listings/:id\<close> exists in \<^verbatim>\<open>index.js\<close> only.\<close>

definition delete_listing :: "string \<Rightarrow> fs \<Rightarrow> response \<times> fs" where
  "delete_listing rid s =
     (case readListings IndexJs s of
        Inl e \<Rightarrow> (json 500 (failure ''Failed to delete listing''), s)
      | Inr listings \<Rightarrow>
          (case findIndex (\<lambda>l. id_of l = rid) listings of
             None \<Rightarrow> (json 404 (failure ''Not found''), s)
           | Some i \<Rightarrow>
               (case writeListings (splice1 i listings) s of
                  (Inl e, s') \<Rightarrow> (json 500 (failure ''Failed to delete listing''), s')
                | (Inr u, s') \<Rightarrow>
                    (json 200 (JObj [(''success'', JBool True),
                                     (''removedId'', JStr (id_of (listings ! i)))]),
                     s'))))"



section \<open>Notions used by the properties\<close>

text \<open>The file system after \<open>n\<close> like requests for the same id, one after the other.\<close>

fun like_times :: "nat \<Rightarrow> variant \<Rightarrow> string \<Rightarrow> fs \<Rightarrow> fs" where
  "like_times 0 v rid s = s"
| "like_times (Suc n) v rid s = like_times n v rid (snd (post_like v rid s))"

text \<open>The listings that the document holds; none when there is no readable document.\<close>

definition stored :: "fs \<Rightarrow> listing list" where
  "stored s = (case doc s of Document ls \<Rightarrow> ls | Missing \<Rightarrow> [] | Corrupt \<Rightarrow> [])"

text \<open>
  A listing before and after a request: the same id, still sold if it was sold, and at
  least as many likes.
\<close>

definition evolves :: "listing \<Rightarrow> listing \<Rightarrow> bool" where
  "evolves l l' = (id_of l' = id_of l \<and> (sold l \<longrightarrow> sold l') \<and> likes l \<le> likes l')"

text \<open>Every listing is still there, in its place; new ones may follow.\<close>

definition kept :: "listing list \<Rightarrow> listing list \<Rightarrow> bool" where
  "kept ls ls' = (length ls \<le> length ls' \<and> list_all2 evolves ls (take (length ls) ls'))"

text \<open>Either every listing is still there, or all but one of them are, in their order.\<close>

definition kept_but_one :: "listing list \<Rightarrow> listing list \<Rightarrow> bool" where
  "kept_but_one ls ls' =
     (list_all2 evolves ls ls' \<or> (\<exists>i \<in> set [0 ..< length ls]. list_all2 evolves (splice1 i ls) ls'))"

text \<open>A body with \<^verbatim>\<open>success: false\<close> and a message that is a string and not empty.\<close>

definition failure_reply :: "response \<Rightarrow> bool" where
  "failure_reply r =
     (get_prop (body r) ''success'' = JBool False
      \<and> (case get_prop (body r) ''message'' of JStr m \<Rightarrow> m \<noteq> [] | _ \<Rightarrow> False))"


section \<open>An example store\<close>

definition lamp :: listing where
  "lamp = \<lparr>id_of = ''1700000000000'', title = JStr ''Lamp'', price = JNum (Finite 20),
           description = JStr ''IKEA'', contact = JStr ''a@b.com'', imageUrl = JStr [],
           likes = 0, sold = False, createdAt = ''2023-11-14T22:13:20.000Z''\<rparr>"

definition disk :: "listings_file \<Rightarrow> fs" where
  "disk f = \<lparr>doc = f, write_error = None, writes = 0\<rparr>"

text \<open>
  Two create requests handled in the same millisecond, on an empty store: the second
  listing gets the id of the first.
\<close>

definition lamp_body :: "(string \<times> jsval) list" where
  "lamp_body = [(''title'', JStr ''Lamp''), (''price'', JNum (Finite 20)),
                (''description'', JStr ''IKEA''), (''contact'', JStr ''a@b.com'')]"

definition desk :: listing where
  "desk = lamp\<lparr>title := JStr ''Desk'', price := JNum (Finite 45)\<rparr>"

definition desk_body :: "(string \<times> jsval) list" where
  "desk_body = [(''title'', JStr ''Desk''), (''price'', JNum (Finite 45)),
                (''description'', JStr ''IKEA''), (''contact'', JStr ''a@b.com'')]"

definition same_millisecond :: fs where
  "same_millisecond =
     snd (post_listings IndexJs 1700000000000 1700000000000 desk_body
       (snd (post_listings IndexJs 1700000000000 1700000000000 lamp_body (disk (Document [])))))"

text \<open>
  Two request bodies with a price that is truthy and not a number: an object with a
  property \<^verbatim>\<open>toString\<close> of its own, and a string that is not numeric.
\<close>

definition odd_price_body :: "(string \<times> jsval) list" where
  "odd_price_body = [(''title'', JStr ''Lamp''), (''price'', JObj [(''toString'', JNum (Finite 1))]),
                     (''description'', JStr ''IKEA''), (''contact'', JStr ''a@b.com'')]"

definition abc_body :: "(string \<times> jsval) list" where
  "abc_body = [(''title'', JStr ''Lamp''), (''price'', JStr ''abc''),
               (''description'', JStr ''IKEA''), (''contact'', JStr ''a@b.com'')]"

text \<open>The values that \<^verbatim>\<open>!v\<close> takes for missing.\<close>

definition falsy :: "jsval list" where
  "falsy = [JUndefined, JNull, JBool False, JNum (Finite 0), JNum NaN, JStr []]"


section \<open>Facts about the platform functions\<close>

lemma json_roundtrip_not_undefined: "v \<noteq> JUndefined \<Longrightarrow> json_roundtrip v \<noteq> JUndefined"
  by (induction v rule: json_roundtrip.induct) auto

lemma json_roundtrip_idem: "json_roundtrip (json_roundtrip v) = json_roundtrip v"
proof (induction v rule: json_roundtrip.induct)
  case (3 xs)
  then show ?case by (auto simp: json_roundtrip_not_undefined)
next
  case (4 kvs)
  have "filter (\<lambda>kv. snd kv \<noteq> JUndefined)
          (map (\<lambda>kv. (fst kv, json_roundtrip (snd kv)))
             (filter (\<lambda>kv. snd kv \<noteq> JUndefined) kvs))
      = map (\<lambda>kv. (fst kv, json_roundtrip (snd kv)))
          (filter (\<lambda>kv. snd kv \<noteq> JUndefined) kvs)"
    by (induction kvs) (auto simp: json_roundtrip_not_undefined)
  with 4 show ?case by auto
qed auto

lemma stringify_listing_idem: "stringify_listing (stringify_listing l) = stringify_listing l"
  by (simp add: stringify_listing_def json_roundtrip_idem)

lemma stringify_listing_fields [simp]:
  "id_of (stringify_listing l) = id_of l" "likes (stringify_listing l) = likes l"
  "sold (stringify_listing l) = sold l" "createdAt (stringify_listing l) = createdAt l"
  by (simp_all add: stringify_listing_def)

lemma map_stringify_json: "list_all json_listing ls \<Longrightarrow> map stringify_listing ls = ls"
  by (induction ls) (auto simp: json_listing_def)

lemma json_listing_stringify: "json_listing (stringify_listing l)"
  by (simp add: json_listing_def stringify_listing_idem)

lemma json_listing_iff:
  "json_listing l \<longleftrightarrow>
     json_roundtrip (title l) = title l \<and> json_roundtrip (price l) = price l \<and>
     json_roundtrip (description l) = description l \<and>
     json_roundtrip (contact l) = contact l \<and> json_roundtrip (imageUrl l) = imageUrl l"
  by (cases l) (simp add: json_listing_def stringify_listing_def)

lemma json_listing_likes: "json_listing l \<Longrightarrow> json_listing (l\<lparr>likes := n\<rparr>)"
  by (simp add: json_listing_iff)

lemma json_listing_sold: "json_listing l \<Longrightarrow> json_listing (l\<lparr>sold := b\<rparr>)"
  by (simp add: json_listing_iff)

lemma json_roundtrip_failure [simp]: "json_roundtrip (failure m) = failure m"
  by (simp add: failure_def)

lemma json_failure [simp]: "json st (failure m) = \<lparr>status = st, body = failure m\<rparr>"
  by (simp add: json_def)

lemma decimal_not_empty: "decimal n \<noteq> []"
  by (subst decimal.simps) simp

lemma toString_not_empty: "toString t \<noteq> []"
  by (simp add: toString_def decimal_not_empty)


text \<open>
  \<open>add_one\<close> against the rounding of the exact sum, around \<open>2\<^sup>5\<^sup>3\<close> and at \<open>2\<^sup>5\<^sup>4\<close>.
\<close>

lemma round_double_examples:
  "round_double 9007199254740993 = 9007199254740992"
  "round_double 9007199254740995 = 9007199254740996"
  "round_double 18014398509481985 = 18014398509481984"
  unfolding round_double_def exponent_def round_half_even_def Let_def by code_simp+

lemma add_one_examples:
  "add_one 9007199254740992 = 9007199254740992"
  "add_one 9007199254740994 = 9007199254740996"
  "add_one 18014398509481984 = 18014398509481984"
  by (simp_all add: add_one_def)


section \<open>Facts about \<open>findIndex\<close>\<close>

lemma findIndex_None: "findIndex p xs = None \<longleftrightarrow> (\<forall>x \<in> set xs. \<not> p x)"
  by (induction xs) auto

lemma findIndex_Some:
  "findIndex p xs = Some i \<longleftrightarrow> i < length xs \<and> p (xs ! i) \<and> (\<forall>j<i. \<not> p (xs ! j))"
proof (induction xs arbitrary: i)
  case Nil
  then show ?case by simp
next
  case (Cons x xs)
  show ?case
  proof (cases "p x")
    case True
    then show ?thesis by (cases i) auto
  next
    case False
    show ?thesis
    proof (cases i)
      case 0
      with False show ?thesis by auto
    next
      case (Suc k)
      have "(\<forall>j<Suc k. \<not> p ((x # xs) ! j)) \<longleftrightarrow> (\<forall>j<k. \<not> p (xs ! j))"
        using False by (auto simp: less_Suc_eq_0_disj)
      with False Suc Cons.IH [of k] show ?thesis by auto
    qed
  qed
qed

lemma findIndex_present:
  assumes "rid \<in> set (map id_of ls)"
  shows "\<exists>i. findIndex (\<lambda>l. id_of l = rid) ls = Some i"
proof (cases "findIndex (\<lambda>l. id_of l = rid) ls")
  case None
  with assms show ?thesis by (auto simp: findIndex_None)
next
  case (Some i)
  then show ?thesis by blast
qed

lemma read_present:
  assumes "readListings v s = Inr ls" and "ls \<noteq> []"
  shows "doc s = Document ls"
  using assms
  by (cases v; cases "doc s") (auto simp: readListings_def parse_file_def)


section \<open>Facts about the example store\<close>

lemma json_listing_lamp: "json_listing lamp"
  by (simp add: json_listing_def stringify_listing_def lamp_def)

lemma toString_example: "toString 1700000000000 = ''1700000000000''"
  by code_simp

lemma toISOString_example: "toISOString 1700000000000 = ''2023-11-14T22:13:20.000Z''"
  by code_simp

lemma lamp_body_props:
  "get_prop (JObj lamp_body) ''title'' = JStr ''Lamp''"
  "get_prop (JObj lamp_body) ''price'' = JNum (Finite 20)"
  "get_prop (JObj lamp_body) ''description'' = JStr ''IKEA''"
  "get_prop (JObj lamp_body) ''contact'' = JStr ''a@b.com''"
  "get_prop (JObj lamp_body) ''imageUrl'' = JUndefined"
  by (simp_all add: lamp_body_def)

lemma desk_body_props:
  "get_prop (JObj desk_body) ''title'' = JStr ''Desk''"
  "get_prop (JObj desk_body) ''price'' = JNum (Finite 45)"
  "get_prop (JObj desk_body) ''description'' = JStr ''IKEA''"
  "get_prop (JObj desk_body) ''contact'' = JStr ''a@b.com''"
  "get_prop (JObj desk_body) ''imageUrl'' = JUndefined"
  by (simp_all add: desk_body_def)

lemma newListing_lamp: "newListing 1700000000000 1700000000000 lamp_body (Finite 20) = lamp"
  by (simp add: newListing_def lamp_body_props lamp_def toString_example toISOString_example
      or_else_def del: get_prop.simps)

lemma newListing_desk: "newListing 1700000000000 1700000000000 desk_body (Finite 45) = desk"
  by (simp add: newListing_def desk_body_props lamp_def desk_def toString_example
      toISOString_example or_else_def del: get_prop.simps)

lemma json_listing_desk: "json_listing desk"
  by (simp add: json_listing_iff desk_def lamp_def)

lemma create_lamp:
  "post_listings IndexJs 1700000000000 1700000000000 lamp_body (disk (Document []))
   = (json 201 (listing_json lamp), \<lparr>doc = Document [lamp], write_error = None, writes = 1\<rparr>)"
  using json_listing_lamp
  by (simp add: post_listings_def lamp_body_props newListing_lamp readListings_def
      parse_file_def disk_def writeListings_def json_listing_def del: get_prop.simps)

lemma create_desk:
  "post_listings IndexJs 1700000000000 1700000000000 desk_body
     \<lparr>doc = Document [lamp], write_error = None, writes = 1\<rparr>
   = (json 201 (listing_json desk),
      \<lparr>doc = Document [lamp, desk], write_error = None, writes = 2\<rparr>)"
  using json_listing_lamp json_listing_desk
  by (simp add: post_listings_def desk_body_props newListing_desk readListings_def
      parse_file_def writeListings_def json_listing_def del: get_prop.simps)

lemma same_millisecond_eq:
  "same_millisecond = \<lparr>doc = Document [lamp, desk], write_error = None, writes = 2\<rparr>"
  by (simp only: same_millisecond_def create_lamp snd_conv create_desk)

lemma ToBoolean_falsy: "\<not> ToBoolean v \<longleftrightarrow> v \<in> set falsy"
  by (cases v) (auto simp: falsy_def)


section \<open>Requests that change nothing\<close>

text \<open>
  C6. A like, buy or delete request whose id matches no record of the collection is
  answered with 404 and the message "Not found", and the file system is left exactly as
  it was: the same document and the same number of calls of \<^verbatim>\<open>fs.writeFile\<close>. The
  collection is what \<^verbatim>\<open>readListings\<close> returns; the delete route exists in \<^verbatim>\<open>index.js\<close>.
\<close>

theorem not_found_no_write:
  assumes "readListings v s = Inr ls" and "rid \<notin> set (map id_of ls)"
  shows "post_like v rid s = (\<lparr>status = 404, body = failure ''Not found''\<rparr>, s)
       \<and> post_buy v rid s = (\<lparr>status = 404, body = failure ''Not found''\<rparr>, s)
       \<and> (v = IndexJs \<longrightarrow>
            delete_listing rid s = (\<lparr>status = 404, body = failure ''Not found''\<rparr>, s))"
proof -
  from assms(2) have "findIndex (\<lambda>l. id_of l = rid) ls = None"
    by (auto simp: findIndex_None)
  with assms(1) show ?thesis
    by (auto simp: post_like_def post_buy_def delete_listing_def)
qed

theorem not_found_no_write_witness:
  "readListings IndexJs (disk (Document [lamp])) = Inr [lamp]
   \<and> ''42'' \<notin> set (map id_of [lamp])
   \<and> post_like IndexJs ''42'' (disk (Document [lamp]))
       = (\<lparr>status = 404, body = failure ''Not found''\<rparr>, disk (Document [lamp]))
   \<and> post_buy IndexJs ''42'' (disk (Document [lamp]))
       = (\<lparr>status = 404, body = failure ''Not found''\<rparr>, disk (Document [lamp]))
   \<and> delete_listing ''42'' (disk (Document [lamp]))
       = (\<lparr>status = 404, body = failure ''Not found''\<rparr>, disk (Document [lamp]))"
proof -
  have r: "readListings IndexJs (disk (Document [lamp])) = Inr [lamp]"
    by (simp add: readListings_def parse_file_def disk_def)
  have n: "''42'' \<notin> set (map id_of [lamp])"
    by (simp add: lamp_def)
  from not_found_no_write [OF r n] r n show ?thesis
    by simp
qed

text \<open>
  C4. A create request in which one of \<^verbatim>\<open>title\<close>, \<^verbatim>\<open>price\<close>, \<^verbatim>\<open>description\<close> and
  \<^verbatim>\<open>contact\<close> is missing or falsy (undefined, \<^verbatim>\<open>null\<close>, \<^verbatim>\<open>false\<close>, the number 0, \<open>NaN\<close>
  or the empty string) is answered with 400 and the message "Missing required fields";
  the file system is left as it was, nothing is written.
\<close>

theorem create_rejects_falsy:
  assumes "k \<in> {''title'', ''price'', ''description'', ''contact''}"
      and "get_prop (JObj req_body) k \<in> set falsy"
  shows "post_listings v now date req_body s
         = (\<lparr>status = 400, body = failure ''Missing required fields''\<rparr>, s)"
proof -
  from assms(2) have "\<not> ToBoolean (get_prop (JObj req_body) k)"
    by (simp only: ToBoolean_falsy)
  with assms(1) show ?thesis
    unfolding post_listings_def by auto
qed

theorem create_rejects_falsy_witness:
  "''price'' \<in> {''title'', ''price'', ''description'', ''contact''}
   \<and> get_prop (JObj [(''title'', JStr ''Lamp''), (''price'', JNum (Finite 0)),
        (''description'', JStr ''IKEA''), (''contact'', JStr ''a@b.com'')]) ''price''
      \<in> set falsy
   \<and> post_listings IndexJs 5 5 [(''title'', JStr ''Lamp''), (''price'', JNum (Finite 0)),
        (''description'', JStr ''IKEA''), (''contact'', JStr ''a@b.com'')]
        (disk (Document [lamp]))
      = (\<lparr>status = 400, body = failure ''Missing required fields''\<rparr>,
         disk (Document [lamp]))"
proof -
  have k: "''price'' \<in> {''title'', ''price'', ''description'', ''contact''}"
    by simp
  have f: "get_prop (JObj [(''title'', JStr ''Lamp''), (''price'', JNum (Finite 0)),
        (''description'', JStr ''IKEA''), (''contact'', JStr ''a@b.com'')]) ''price''
      \<in> set falsy"
    by (simp add: falsy_def)
  from create_rejects_falsy [OF k f] k f show ?thesis
    by simp
qed


section \<open>A store that cannot be read\<close>

text \<open>
  C8, as the code has it. When \<^verbatim>\<open>listings.json\<close> is missing or is not JSON, the
  \<^verbatim>\<open>readListings\<close> of \<^verbatim>\<open>part_000\<close> fails and its list route answers 500 with the message
  "Failed to read listings"; the \<^verbatim>\<open>readListings\<close> of \<^verbatim>\<open>index.js\<close> catches the failure
  and returns the empty array, and its list route answers 200 with \<^verbatim>\<open>[]\<close>.
\<close>

theorem read_failure_variants:
  assumes "doc s = Missing \<or> doc s = Corrupt"
  shows "readListings Part000 s = Inl ReadError
       \<and> get_listings Part000 s
           = (\<lparr>status = 500, body = failure ''Failed to read listings''\<rparr>, s)
       \<and> readListings IndexJs s = Inr []
       \<and> get_listings IndexJs s = (\<lparr>status = 200, body = JArr []\<rparr>, s)"
  using assms
  by (auto simp: readListings_def parse_file_def get_listings_def json_def)

theorem read_failure_variants_witness:
  "(doc (disk Corrupt) = Missing \<or> doc (disk Corrupt) = Corrupt)
   \<and> readListings Part000 (disk Corrupt) = Inl ReadError
   \<and> get_listings Part000 (disk Corrupt)
       = (\<lparr>status = 500, body = failure ''Failed to read listings''\<rparr>, disk Corrupt)
   \<and> readListings IndexJs (disk Corrupt) = Inr []
   \<and> get_listings IndexJs (disk Corrupt) = (\<lparr>status = 200, body = JArr []\<rparr>, disk Corrupt)"
proof -
  have h: "doc (disk Corrupt) = Missing \<or> doc (disk Corrupt) = Corrupt"
    by (simp add: disk_def)
  from read_failure_variants [OF h] h show ?thesis
    by simp
qed

text \<open>
  C8 as stated fails in \<^verbatim>\<open>index.js\<close>: with the file missing, \<^verbatim>\<open>readListings\<close> does not
  fail and the list route does not answer 500.
\<close>

theorem read_failure_swallowed:
  "readListings IndexJs (disk Missing) \<noteq> Inl ReadError
   \<and> status (fst (get_listings IndexJs (disk Missing))) \<noteq> 500"
  by (simp add: readListings_def parse_file_def get_listings_def json_def disk_def)

section \<open>Liking a listing\<close>

lemma read_document: "doc s = Document ls \<Longrightarrow> readListings v s = Inr ls"
  by (cases v) (simp_all add: readListings_def parse_file_def)

lemma list_all_update: "list_all P xs \<Longrightarrow> P x \<Longrightarrow> list_all P (xs[i := x])"
  by (induction xs arbitrary: i) (auto split: nat.splits)

lemma findIndex_map: "findIndex (\<lambda>l. f l = a) xs = findIndex (\<lambda>y. y = a) (map f xs)"
  by (induction xs) auto

lemma first_match:
  assumes "rid \<in> set (map id_of ls)"
  obtains i where "findIndex (\<lambda>l. id_of l = rid) ls = Some i" "i < length ls"
    "id_of (ls ! i) = rid" "\<forall>j<i. id_of (ls ! j) \<noteq> rid"
proof -
  from findIndex_present [OF assms] obtain i
    where f: "findIndex (\<lambda>l. id_of l = rid) ls = Some i" by blast
  then have "i < length ls" "id_of (ls ! i) = rid" "\<forall>j<i. id_of (ls ! j) \<noteq> rid"
    by (simp_all add: findIndex_Some)
  with f show ?thesis
    by (rule that)
qed

lemma add_one_exact: "n < 2 ^ 53 \<Longrightarrow> add_one n = n + 1"
  by (simp add: add_one_def)

lemma add_one_ge: "n \<le> add_one n"
  by (simp add: add_one_def)

lemma like_once:
  assumes "doc s = Document ls" and "findIndex (\<lambda>l. id_of l = rid) ls = Some i"
      and "list_all json_listing ls" and "write_error s = None"
  shows "post_like v rid s =
          (\<lparr>status = 200,
            body = JObj [(''success'', JBool True),
                         (''likes'', JNum (Finite (of_nat (add_one (likes (ls ! i))))))]\<rparr>,
           s\<lparr>doc := Document (ls[i := (ls ! i)\<lparr>likes := add_one (likes (ls ! i))\<rparr>]),
             writes := Suc (writes s)\<rparr>)"
proof -
  from assms(2) have i: "i < length ls"
    by (simp add: findIndex_Some)
  with assms(3) have "json_listing (ls ! i)"
    by (simp add: list_all_length)
  then have "list_all json_listing (ls[i := (ls ! i)\<lparr>likes := add_one (likes (ls ! i))\<rparr>])"
    using assms(3) by (intro list_all_update json_listing_likes)
  then have "map stringify_listing (ls[i := (ls ! i)\<lparr>likes := add_one (likes (ls ! i))\<rparr>])
             = ls[i := (ls ! i)\<lparr>likes := add_one (likes (ls ! i))\<rparr>]"
    by (rule map_stringify_json)
  with assms(2,4) read_document [OF assms(1), of v] show ?thesis
    by (simp add: post_like_def writeListings_def json_def Let_def)
qed

lemma like_many:
  assumes "doc s = Document ls" and "findIndex (\<lambda>l. id_of l = rid) ls = Some i"
      and "list_all json_listing ls" and "write_error s = None"
      and "likes (ls ! i) + n \<le> 2 ^ 53"
  shows "like_times n v rid s =
           s\<lparr>doc := Document (ls[i := (ls ! i)\<lparr>likes := likes (ls ! i) + n\<rparr>]),
             writes := writes s + n\<rparr>"
  using assms
proof (induction n arbitrary: s ls)
  case 0
  then show ?case by simp
next
  case (Suc n)
  let ?l = "(ls ! i)\<lparr>likes := likes (ls ! i) + 1\<rparr>"
  let ?s = "s\<lparr>doc := Document (ls[i := ?l]), writes := Suc (writes s)\<rparr>"
  from Suc.prems(2) have i: "i < length ls"
    by (simp add: findIndex_Some)
  from Suc.prems(5) have "likes (ls ! i) < 2 ^ 53"
    by simp
  then have a: "add_one (likes (ls ! i)) = likes (ls ! i) + 1"
    by (rule add_one_exact)
  have step: "snd (post_like v rid s) = ?s"
    using like_once [OF Suc.prems(1-4)] a by simp
  have d: "doc ?s = Document (ls[i := ?l])" and w: "write_error ?s = None"
    using Suc.prems(4) by simp_all
  have "map id_of (ls[i := ?l]) = map id_of ls"
    using i by (simp add: map_update list_update_same_conv)
  then have f: "findIndex (\<lambda>l. id_of l = rid) (ls[i := ?l]) = Some i"
    using Suc.prems(2) by (simp add: findIndex_map [of id_of])
  from Suc.prems(3) i have "json_listing (ls ! i)"
    by (simp add: list_all_length)
  then have j: "list_all json_listing (ls[i := ?l])"
    using Suc.prems(3) by (intro list_all_update json_listing_likes)
  have b: "likes ((ls[i := ?l]) ! i) + n \<le> 2 ^ 53"
    using i Suc.prems(5) by simp
  have "like_times (Suc n) v rid s = like_times n v rid ?s"
    by (simp add: step)
  also have "\<dots> = ?s\<lparr>doc := Document ((ls[i := ?l])[i := ((ls[i := ?l]) ! i)
                          \<lparr>likes := likes ((ls[i := ?l]) ! i) + n\<rparr>]),
                       writes := writes ?s + n\<rparr>"
    by (rule Suc.IH [OF d f j w b])
  also have "\<dots> = s\<lparr>doc := Document (ls[i := (ls ! i)\<lparr>likes := likes (ls ! i) + Suc n\<rparr>]),
                      writes := writes s + Suc n\<rparr>"
    using i by simp
  finally show ?case .
qed

text \<open>
  C2, as the code has it. A like request for an id that is in the collection finds the
  first record with that id, replaces its \<^verbatim>\<open>likes\<close> by the double-precision sum of it
  and 1, changes no other field of it and no other record, writes the collection, and
  answers 200 with the new count. While the count is below \<open>2\<^sup>5\<^sup>3\<close> the sum is the count
  plus exactly 1, so \<open>n\<close> such requests in a row add \<open>n\<close> as long as the count stays within
  \<open>2\<^sup>5\<^sup>3\<close>: from 0 it is \<open>n\<close> for every \<open>n\<close> up to \<open>2\<^sup>5\<^sup>3\<close>. (The document holds JSON and
  \<^verbatim>\<open>fs.writeFile\<close> succeeds.)
\<close>

theorem like_increments:
  assumes "readListings v s = Inr ls" and "rid \<in> set (map id_of ls)"
      and "list_all json_listing ls" and "write_error s = None"
  shows "\<exists>i<length ls. id_of (ls ! i) = rid \<and> (\<forall>j<i. id_of (ls ! j) \<noteq> rid)
     \<and> post_like v rid s =
          (\<lparr>status = 200,
            body = JObj [(''success'', JBool True),
                         (''likes'', JNum (Finite (of_nat (add_one (likes (ls ! i))))))]\<rparr>,
           s\<lparr>doc := Document (ls[i := (ls ! i)\<lparr>likes := add_one (likes (ls ! i))\<rparr>]),
             writes := Suc (writes s)\<rparr>)
     \<and> (likes (ls ! i) < 2 ^ 53 \<longrightarrow> add_one (likes (ls ! i)) = likes (ls ! i) + 1)
     \<and> (\<forall>n. likes (ls ! i) + n \<le> 2 ^ 53 \<longrightarrow>
           like_times n v rid s =
             s\<lparr>doc := Document (ls[i := (ls ! i)\<lparr>likes := likes (ls ! i) + n\<rparr>]),
               writes := writes s + n\<rparr>)"
proof -
  from assms(2) have "ls \<noteq> []" by auto
  with assms(1) have d: "doc s = Document ls"
    by (rule read_present)
  from assms(2) obtain i where f: "findIndex (\<lambda>l. id_of l = rid) ls = Some i"
    and i: "i < length ls" "id_of (ls ! i) = rid" "\<forall>j<i. id_of (ls ! j) \<noteq> rid"
    by (rule first_match)
  show ?thesis
    using i like_once [OF d f assms(3,4)] like_many [OF d f assms(3,4)]
      add_one_exact [of "likes (ls ! i)"]
    by blast
qed

theorem like_increments_witness:
  "readListings IndexJs (disk (Document [lamp])) = Inr [lamp]
   \<and> ''1700000000000'' \<in> set (map id_of [lamp])
   \<and> list_all json_listing [lamp]
   \<and> write_error (disk (Document [lamp])) = None
   \<and> likes lamp < 2 ^ 53 \<and> likes lamp + 3 \<le> 2 ^ 53
   \<and> post_like IndexJs ''1700000000000'' (disk (Document [lamp])) =
       (\<lparr>status = 200, body = JObj [(''success'', JBool True), (''likes'', JNum (Finite 1))]\<rparr>,
        \<lparr>doc = Document [lamp\<lparr>likes := 1\<rparr>], write_error = None, writes = 1\<rparr>)
   \<and> like_times 3 IndexJs ''1700000000000'' (disk (Document [lamp])) =
       \<lparr>doc = Document [lamp\<lparr>likes := 3\<rparr>], write_error = None, writes = 3\<rparr>"
proof -
  have r: "readListings IndexJs (disk (Document [lamp])) = Inr [lamp]"
    by (simp add: readListings_def parse_file_def disk_def)
  have p: "''1700000000000'' \<in> set (map id_of [lamp])"
    by (simp add: lamp_def)
  have j: "list_all json_listing [lamp]"
    by (simp add: json_listing_lamp)
  have w: "write_error (disk (Document [lamp])) = None"
    by (simp add: disk_def)
  have l: "likes lamp = 0"
    by (simp add: lamp_def)
  from like_increments [OF r p j w] r p j w l show ?thesis
    by (simp add: disk_def)
qed

text \<open>
  C2 as stated fails at a count of \<open>2\<^sup>5\<^sup>3 = 9007199254740992\<close>: the sum with 1 is not a
  double and rounds back, so the like request answers with the same count and stores
  it, and no number of further requests makes it grow.
\<close>

theorem like_stops_at_2_53:
  "''1700000000000'' \<in> set (map id_of [lamp\<lparr>likes := 9007199254740992\<rparr>])
   \<and> post_like IndexJs ''1700000000000'' (disk (Document [lamp\<lparr>likes := 9007199254740992\<rparr>])) =
       (\<lparr>status = 200,
         body = JObj [(''success'', JBool True), (''likes'', JNum (Finite 9007199254740992))]\<rparr>,
        \<lparr>doc = Document [lamp\<lparr>likes := 9007199254740992\<rparr>], write_error = None, writes = 1\<rparr>)
   \<and> likes (hd (stored (snd (post_like IndexJs ''1700000000000''
         (disk (Document [lamp\<lparr>likes := 9007199254740992\<rparr>])))))) \<noteq> 9007199254740992 + 1"
proof -
  have a: "add_one 9007199254740992 = 9007199254740992"
    by (simp add: add_one_def)
  have j: "stringify_listing (lamp\<lparr>likes := 9007199254740992\<rparr>) = lamp\<lparr>likes := 9007199254740992\<rparr>"
    by (simp add: stringify_listing_def lamp_def)
  have i: "id_of lamp = ''1700000000000''"
    by (simp add: lamp_def)
  show ?thesis
    by (simp add: post_like_def readListings_def parse_file_def disk_def writeListings_def
        json_def stored_def a j i)
qed


section \<open>Buying a listing\<close>

lemma buy_sold:
  assumes "doc s = Document ls" and "findIndex (\<lambda>l. id_of l = rid) ls = Some i"
      and "sold (ls ! i)"
  shows "post_buy v rid s = (\<lparr>status = 400, body = failure ''Already sold''\<rparr>, s)"
  using assms(2,3) read_document [OF assms(1), of v]
  by (simp add: post_buy_def)

lemma buy_unsold:
  assumes "doc s = Document ls" and "findIndex (\<lambda>l. id_of l = rid) ls = Some i"
      and "\<not> sold (ls ! i)" and "list_all json_listing ls" and "write_error s = None"
  shows "post_buy v rid s =
          (\<lparr>status = 200, body = JObj [(''success'', JBool True), (''sold'', JBool True)]\<rparr>,
           s\<lparr>doc := Document (ls[i := (ls ! i)\<lparr>sold := True\<rparr>]), writes := Suc (writes s)\<rparr>)"
proof -
  from assms(2) have i: "i < length ls"
    by (simp add: findIndex_Some)
  with assms(4) have "json_listing (ls ! i)"
    by (simp add: list_all_length)
  then have "list_all json_listing (ls[i := (ls ! i)\<lparr>sold := True\<rparr>])"
    using assms(4) by (intro list_all_update json_listing_sold)
  then have "map stringify_listing (ls[i := (ls ! i)\<lparr>sold := True\<rparr>])
             = ls[i := (ls ! i)\<lparr>sold := True\<rparr>]"
    by (rule map_stringify_json)
  with assms(2,3,5) read_document [OF assms(1), of v] show ?thesis
    by (simp add: post_buy_def writeListings_def json_def)
qed

text \<open>
  C1. A buy request for an id that is in the collection looks at the first record with
  that id. If it is already sold the answer is 400 with the message "Already sold" and
  the file system is left as it was (no write). If it is not sold, the record gets
  \<^verbatim>\<open>sold = true\<close>, the collection is written, and the answer is 200; a second buy for
  the same id is then answered with 400 and changes nothing, so \<^verbatim>\<open>sold\<close> stays true.
  (For the write, the document holds JSON and \<^verbatim>\<open>fs.writeFile\<close> succeeds.)
\<close>

theorem buy_marks_sold_once:
  assumes "readListings v s = Inr ls" and "rid \<in> set (map id_of ls)"
  shows "\<exists>i<length ls. id_of (ls ! i) = rid \<and> (\<forall>j<i. id_of (ls ! j) \<noteq> rid)
     \<and> (sold (ls ! i) \<longrightarrow>
          post_buy v rid s = (\<lparr>status = 400, body = failure ''Already sold''\<rparr>, s))
     \<and> (\<not> sold (ls ! i) \<and> list_all json_listing ls \<and> write_error s = None \<longrightarrow>
          post_buy v rid s =
            (\<lparr>status = 200, body = JObj [(''success'', JBool True), (''sold'', JBool True)]\<rparr>,
             s\<lparr>doc := Document (ls[i := (ls ! i)\<lparr>sold := True\<rparr>]), writes := Suc (writes s)\<rparr>)
          \<and> post_buy v rid
               (s\<lparr>doc := Document (ls[i := (ls ! i)\<lparr>sold := True\<rparr>]),
                  writes := Suc (writes s)\<rparr>) =
            (\<lparr>status = 400, body = failure ''Already sold''\<rparr>,
             s\<lparr>doc := Document (ls[i := (ls ! i)\<lparr>sold := True\<rparr>]), writes := Suc (writes s)\<rparr>))"
proof -
  from assms(2) have "ls \<noteq> []" by auto
  with assms(1) have d: "doc s = Document ls"
    by (rule read_present)
  from assms(2) obtain i where f: "findIndex (\<lambda>l. id_of l = rid) ls = Some i"
    and i: "i < length ls" "id_of (ls ! i) = rid" "\<forall>j<i. id_of (ls ! j) \<noteq> rid"
    by (rule first_match)
  let ?ls = "ls[i := (ls ! i)\<lparr>sold := True\<rparr>]"
  let ?s = "s\<lparr>doc := Document ?ls, writes := Suc (writes s)\<rparr>"
  have "map id_of ?ls = map id_of ls"
    using i(1) by (simp add: map_update list_update_same_conv)
  then have f': "findIndex (\<lambda>l. id_of l = rid) ?ls = Some i"
    using f by (simp add: findIndex_map [of id_of])
  have "sold (?ls ! i)"
    using i(1) by simp
  with f' have again: "post_buy v rid ?s = (\<lparr>status = 400, body = failure ''Already sold''\<rparr>, ?s)"
    by (intro buy_sold [of ?s ?ls]) simp_all
  show ?thesis
    using i buy_sold [OF d f] buy_unsold [OF d f] again by blast
qed

theorem buy_marks_sold_once_witness:
  "readListings IndexJs (disk (Document [lamp])) = Inr [lamp]
   \<and> ''1700000000000'' \<in> set (map id_of [lamp])
   \<and> \<not> sold lamp \<and> list_all json_listing [lamp] \<and> write_error (disk (Document [lamp])) = None
   \<and> post_buy IndexJs ''1700000000000'' (disk (Document [lamp])) =
       (\<lparr>status = 200, body = JObj [(''success'', JBool True), (''sold'', JBool True)]\<rparr>,
        \<lparr>doc = Document [lamp\<lparr>sold := True\<rparr>], write_error = None, writes = 1\<rparr>)
   \<and> post_buy IndexJs ''1700000000000''
        \<lparr>doc = Document [lamp\<lparr>sold := True\<rparr>], write_error = None, writes = 1\<rparr> =
       (\<lparr>status = 400, body = failure ''Already sold''\<rparr>,
        \<lparr>doc = Document [lamp\<lparr>sold := True\<rparr>], write_error = None, writes = 1\<rparr>)"
proof -
  have r: "readListings IndexJs (disk (Document [lamp])) = Inr [lamp]"
    by (simp add: readListings_def parse_file_def disk_def)
  have p: "''1700000000000'' \<in> set (map id_of [lamp])"
    by (simp add: lamp_def)
  have j: "list_all json_listing [lamp]"
    by (simp add: json_listing_lamp)
  have w: "write_error (disk (Document [lamp])) = None"
    by (simp add: disk_def)
  have u: "\<not> sold lamp"
    by (simp add: lamp_def)
  from buy_marks_sold_once [OF r p] r p j w u show ?thesis
    by (simp add: disk_def)
qed


section \<open>Deleting a listing\<close>

lemma length_splice1: "i < length xs \<Longrightarrow> length (splice1 i xs) + 1 = length xs"
  by (simp add: splice1_def)

lemma set_splice1:
  assumes "x \<in> set (splice1 i xs)"
  shows "\<exists>j<length xs. j \<noteq> i \<and> x = xs ! j"
proof -
  from assms have "x \<in> set (take i xs) \<or> x \<in> set (drop (Suc i) xs)"
    by (simp add: splice1_def)
  then show ?thesis
  proof
    assume "x \<in> set (take i xs)"
    then obtain j where "j < length (take i xs)" "x = take i xs ! j"
      by (auto simp: in_set_conv_nth)
    then show ?thesis by (intro exI [of _ j]) auto
  next
    assume "x \<in> set (drop (Suc i) xs)"
    then obtain j where "j < length (drop (Suc i) xs)" "x = drop (Suc i) xs ! j"
      by (auto simp: in_set_conv_nth)
    then show ?thesis by (intro exI [of _ "Suc i + j"]) auto
  qed
qed

lemma list_all_splice1: "list_all P xs \<Longrightarrow> list_all P (splice1 i xs)"
  by (auto simp: list_all_iff splice1_def dest: in_set_takeD in_set_dropD)

lemma delete_once:
  assumes "doc s = Document ls" and "findIndex (\<lambda>l. id_of l = rid) ls = Some i"
      and "list_all json_listing ls" and "write_error s = None"
  shows "delete_listing rid s =
          (\<lparr>status = 200, body = JObj [(''success'', JBool True), (''removedId'', JStr rid)]\<rparr>,
           s\<lparr>doc := Document (splice1 i ls), writes := Suc (writes s)\<rparr>)"
proof -
  from assms(2) have i: "i < length ls" "id_of (ls ! i) = rid"
    by (simp_all add: findIndex_Some)
  from assms(3) have "map stringify_listing (splice1 i ls) = splice1 i ls"
    by (intro map_stringify_json list_all_splice1)
  with assms(2,4) i read_document [OF assms(1), of IndexJs] show ?thesis
    by (simp add: delete_listing_def writeListings_def json_def)
qed

text \<open>
  C5, as the code has it. A delete request for an id that is in the collection removes
  the first record with that id and no other: the collection is one shorter, the records
  before it and after it keep their order, the collection is written and the answer is
  200 with the removed id. A second delete of the same id is answered with 404 when no
  other record has that id. (The document holds JSON and \<^verbatim>\<open>fs.writeFile\<close> succeeds.)
\<close>

theorem delete_removes_first:
  assumes "readListings IndexJs s = Inr ls" and "rid \<in> set (map id_of ls)"
      and "list_all json_listing ls" and "write_error s = None"
  shows "\<exists>i<length ls. id_of (ls ! i) = rid \<and> (\<forall>j<i. id_of (ls ! j) \<noteq> rid)
     \<and> delete_listing rid s =
          (\<lparr>status = 200, body = JObj [(''success'', JBool True), (''removedId'', JStr rid)]\<rparr>,
           s\<lparr>doc := Document (take i ls @ drop (Suc i) ls), writes := Suc (writes s)\<rparr>)
     \<and> length (take i ls @ drop (Suc i) ls) + 1 = length ls
     \<and> ((\<forall>j<length ls. j \<noteq> i \<longrightarrow> id_of (ls ! j) \<noteq> rid) \<longrightarrow>
          delete_listing rid
            (s\<lparr>doc := Document (take i ls @ drop (Suc i) ls), writes := Suc (writes s)\<rparr>) =
          (\<lparr>status = 404, body = failure ''Not found''\<rparr>,
           s\<lparr>doc := Document (take i ls @ drop (Suc i) ls), writes := Suc (writes s)\<rparr>))"
proof -
  from assms(2) have "ls \<noteq> []" by auto
  with assms(1) have d: "doc s = Document ls"
    by (rule read_present)
  from assms(2) obtain i where f: "findIndex (\<lambda>l. id_of l = rid) ls = Some i"
    and i: "i < length ls" "id_of (ls ! i) = rid" "\<forall>j<i. id_of (ls ! j) \<noteq> rid"
    by (rule first_match)
  let ?s = "s\<lparr>doc := Document (splice1 i ls), writes := Suc (writes s)\<rparr>"
  have again: "delete_listing rid ?s = (\<lparr>status = 404, body = failure ''Not found''\<rparr>, ?s)"
    if "\<forall>j<length ls. j \<noteq> i \<longrightarrow> id_of (ls ! j) \<noteq> rid"
  proof -
    have "findIndex (\<lambda>l. id_of l = rid) (splice1 i ls) = None"
      using that by (auto simp: findIndex_None dest: set_splice1)
    moreover have "readListings IndexJs ?s = Inr (splice1 i ls)"
      by (rule read_document) simp
    ultimately show ?thesis
      by (simp add: delete_listing_def)
  qed
  show ?thesis
    using i delete_once [OF d f assms(3,4)] again length_splice1 [OF i(1)]
    unfolding splice1_def by blast
qed

theorem delete_removes_first_witness:
  "readListings IndexJs (disk (Document [lamp])) = Inr [lamp]
   \<and> ''1700000000000'' \<in> set (map id_of [lamp])
   \<and> list_all json_listing [lamp] \<and> write_error (disk (Document [lamp])) = None
   \<and> delete_listing ''1700000000000'' (disk (Document [lamp])) =
       (\<lparr>status = 200,
         body = JObj [(''success'', JBool True), (''removedId'', JStr ''1700000000000'')]\<rparr>,
        \<lparr>doc = Document [], write_error = None, writes = 1\<rparr>)
   \<and> delete_listing ''1700000000000'' \<lparr>doc = Document [], write_error = None, writes = 1\<rparr> =
       (\<lparr>status = 404, body = failure ''Not found''\<rparr>,
        \<lparr>doc = Document [], write_error = None, writes = 1\<rparr>)"
proof -
  have r: "readListings IndexJs (disk (Document [lamp])) = Inr [lamp]"
    by (simp add: readListings_def parse_file_def disk_def)
  have p: "''1700000000000'' \<in> set (map id_of [lamp])"
    by (simp add: lamp_def)
  have j: "list_all json_listing [lamp]"
    by (simp add: json_listing_lamp)
  have w: "write_error (disk (Document [lamp])) = None"
    by (simp add: disk_def)
  from delete_removes_first [OF r p j w] r p j w show ?thesis
    by (simp add: disk_def)
qed

text \<open>
  C5 as stated fails when two records share an id, which two create requests handled in
  the same millisecond produce: the second delete of that id removes the other record
  and is not answered with 404.
\<close>

theorem second_delete_removes_duplicate:
  "''1700000000000'' \<in> set (map id_of (stored same_millisecond))
   \<and> status (fst (delete_listing ''1700000000000''
        (snd (delete_listing ''1700000000000'' same_millisecond)))) \<noteq> 404"
  using json_listing_lamp json_listing_desk
  by (simp add: same_millisecond_eq stored_def delete_listing_def readListings_def
      parse_file_def writeListings_def json_listing_def splice1_def json_def)
     (simp add: lamp_def desk_def)

section \<open>What no request undoes\<close>

lemma write_leaves_json:
  "write_error s = None \<Longrightarrow> json_doc (doc (snd (writeListings ls s)))"
  by (simp add: writeListings_def json_doc_def list_all_iff json_listing_stringify)

lemma evolves_stringify: "evolves l (stringify_listing l)"
  by (simp add: evolves_def)

lemma list_all2_evolves_stringify: "list_all2 evolves ls (map stringify_listing ls)"
  by (simp add: list_all2_conv_all_nth evolves_stringify)

lemma kept_refl: "kept ls ls"
  by (simp add: kept_def list_all2_conv_all_nth evolves_def)

lemma kept_append: "kept ls (map stringify_listing ls @ xs)"
  by (simp add: kept_def list_all2_evolves_stringify)

lemma kept_update:
  assumes "i < length ls" and "evolves (ls ! i) l'"
  shows "kept ls (map stringify_listing (ls[i := l']))"
  using assms
  by (auto simp: kept_def list_all2_conv_all_nth nth_list_update evolves_def)

lemma kept_but_one_splice:
  assumes "i < length ls"
  shows "kept_but_one ls (map stringify_listing (splice1 i ls))"
proof -
  have "list_all2 evolves (splice1 i ls) (map stringify_listing (splice1 i ls))"
    by (rule list_all2_evolves_stringify)
  with assms show ?thesis
    unfolding kept_but_one_def by auto
qed

lemma stored_read:
  "readListings v s = Inr ls \<Longrightarrow> stored s = ls \<or> (stored s = [] \<and> ls = [])"
  by (cases v; cases "doc s") (auto simp: readListings_def parse_file_def stored_def)

lemma kept_nil [simp]: "kept [] ls"
  by (simp add: kept_def)

lemma kept_create:
  assumes "write_error s = None"
  shows "kept (stored s) (stored (snd (post_listings v now date req_body s)))"
proof (cases "readListings v s")
  case (Inl e)
  then show ?thesis
    by (simp add: post_listings_def kept_refl)
next
  case (Inr ls)
  with stored_read [OF Inr] assms show ?thesis
    by (auto simp: post_listings_def kept_refl writeListings_def stored_def kept_append
        split: sum.splits)
qed

lemma kept_like:
  assumes "write_error s = None"
  shows "kept (stored s) (stored (snd (post_like v rid s)))"
proof (cases "readListings v s")
  case (Inl e)
  then show ?thesis
    by (simp add: post_like_def kept_refl)
next
  case (Inr ls)
  show ?thesis
  proof (cases "findIndex (\<lambda>l. id_of l = rid) ls")
    case None
    with Inr show ?thesis
      by (simp add: post_like_def kept_refl)
  next
    case (Some i)
    then have i: "i < length ls"
      by (simp add: findIndex_Some)
    then have "ls \<noteq> []" by auto
    with stored_read [OF Inr] have st: "stored s = ls" by auto
    have "kept ls (map stringify_listing (ls[i := (ls ! i)\<lparr>likes := add_one (likes (ls ! i))\<rparr>]))"
      using i by (intro kept_update) (simp_all add: evolves_def add_one_ge)
    with Inr Some assms st show ?thesis
      by (simp add: post_like_def writeListings_def Let_def stored_def)
  qed
qed

lemma kept_buy:
  assumes "write_error s = None"
  shows "kept (stored s) (stored (snd (post_buy v rid s)))"
proof (cases "readListings v s")
  case (Inl e)
  then show ?thesis
    by (simp add: post_buy_def kept_refl)
next
  case (Inr ls)
  show ?thesis
  proof (cases "findIndex (\<lambda>l. id_of l = rid) ls")
    case None
    with Inr show ?thesis
      by (simp add: post_buy_def kept_refl)
  next
    case (Some i)
    then have i: "i < length ls"
      by (simp add: findIndex_Some)
    then have "ls \<noteq> []" by auto
    with stored_read [OF Inr] have st: "stored s = ls" by auto
    have "kept ls (map stringify_listing (ls[i := (ls ! i)\<lparr>sold := True\<rparr>]))"
      using i by (intro kept_update) (simp_all add: evolves_def)
    with Inr Some assms st show ?thesis
      by (simp add: post_buy_def writeListings_def stored_def kept_refl)
  qed
qed

lemma kept_but_one_delete:
  assumes "write_error s = None"
  shows "kept_but_one (stored s) (stored (snd (delete_listing rid s)))"
proof -
  have same: "kept_but_one (stored s) (stored s)"
    by (simp add: kept_but_one_def list_all2_conv_all_nth evolves_def)
  obtain ls where r: "readListings IndexJs s = Inr ls"
    by (cases "doc s") (auto simp: readListings_def parse_file_def)
  show ?thesis
  proof (cases "findIndex (\<lambda>l. id_of l = rid) ls")
    case None
    with r same show ?thesis
      by (simp add: delete_listing_def)
  next
    case (Some i)
    then have i: "i < length ls"
      by (simp add: findIndex_Some)
    then have "ls \<noteq> []" by auto
    with stored_read [OF r] have st: "stored s = ls" by auto
    from r Some assms st kept_but_one_splice [OF i] show ?thesis
      by (simp add: delete_listing_def writeListings_def stored_def)
  qed
qed

text \<open>
  C7. None of the five operations takes a listing back from sold to unsold or lowers its
  number of likes. Listing changes nothing. After create, like and buy every record
  of the document is still in its place, with the same id, sold if it was sold and with
  at least as many likes (create adds one record at the end). After delete the same holds
  for all records, or for all but the one removed. (\<^verbatim>\<open>fs.writeFile\<close> succeeds.)
\<close>

theorem sold_and_likes_never_regress:
  assumes "write_error s = None"
  shows "snd (get_listings v s) = s
       \<and> kept (stored s) (stored (snd (post_listings v now date req_body s)))
       \<and> kept (stored s) (stored (snd (post_like v rid s)))
       \<and> kept (stored s) (stored (snd (post_buy v rid s)))
       \<and> kept_but_one (stored s) (stored (snd (delete_listing rid s)))"
proof -
  have "snd (get_listings v s) = s"
    by (simp add: get_listings_def split: sum.splits)
  with kept_create [OF assms] kept_like [OF assms] kept_buy [OF assms]
    kept_but_one_delete [OF assms]
  show ?thesis by blast
qed

theorem sold_and_likes_never_regress_witness:
  "write_error (disk (Document [lamp\<lparr>sold := True\<rparr>])) = None
   \<and> snd (get_listings IndexJs (disk (Document [lamp\<lparr>sold := True\<rparr>])))
       = disk (Document [lamp\<lparr>sold := True\<rparr>])
   \<and> kept (stored (disk (Document [lamp\<lparr>sold := True\<rparr>])))
        (stored (snd (post_listings IndexJs 1700000000000 1700000000000 desk_body
           (disk (Document [lamp\<lparr>sold := True\<rparr>])))))
   \<and> kept (stored (disk (Document [lamp\<lparr>sold := True\<rparr>])))
        (stored (snd (post_like IndexJs ''1700000000000''
           (disk (Document [lamp\<lparr>sold := True\<rparr>])))))
   \<and> kept (stored (disk (Document [lamp\<lparr>sold := True\<rparr>])))
        (stored (snd (post_buy IndexJs ''1700000000000''
           (disk (Document [lamp\<lparr>sold := True\<rparr>])))))
   \<and> kept_but_one (stored (disk (Document [lamp\<lparr>sold := True\<rparr>])))
        (stored (snd (delete_listing ''1700000000000''
           (disk (Document [lamp\<lparr>sold := True\<rparr>])))))"
proof -
  have w: "write_error (disk (Document [lamp\<lparr>sold := True\<rparr>])) = None"
    by (simp add: disk_def)
  from sold_and_likes_never_regress [OF w] w show ?thesis
    by blast
qed


section \<open>The shape of the replies\<close>



lemma failure_reply_failure [simp]:
  "failure_reply \<lparr>status = st, body = failure m\<rparr> \<longleftrightarrow> m \<noteq> []"
  by (simp add: failure_reply_def failure_def)










section \<open>Creating a listing\<close>

lemma roundtrip_listing_json:
  assumes "title l \<noteq> JUndefined" "price l \<noteq> JUndefined" "description l \<noteq> JUndefined"
    "contact l \<noteq> JUndefined" "imageUrl l \<noteq> JUndefined"
  shows "json_roundtrip (listing_json l) = listing_json (stringify_listing l)"
  using assms by (simp add: listing_json_def stringify_listing_def)

lemma ToBoolean_defined: "ToBoolean v \<Longrightarrow> v \<noteq> JUndefined"
  by auto

lemma or_else_defined: "or_else a (JStr []) \<noteq> JUndefined"
  by (auto simp: or_else_def)

lemma create_ok:
  assumes "ToBoolean (get_prop (JObj req_body) ''title'')"
      and "ToBoolean (get_prop (JObj req_body) ''price'')"
      and "ToBoolean (get_prop (JObj req_body) ''description'')"
      and "ToBoolean (get_prop (JObj req_body) ''contact'')"
      and "Number (get_prop (JObj req_body) ''price'') = Inr n"
      and "readListings v s = Inr ls" and "write_error s = None"
  shows "post_listings v now date req_body s =
           (\<lparr>status = 201, body = listing_json (stringify_listing (newListing now date req_body n))\<rparr>,
            s\<lparr>doc := Document (map stringify_listing ls
                                 @ [stringify_listing (newListing now date req_body n)]),
              writes := Suc (writes s)\<rparr>)"
proof -
  let ?l = "newListing now date req_body n"
  have "json_roundtrip (listing_json ?l) = listing_json (stringify_listing ?l)"
    using assms(1,3,4)
    by (intro roundtrip_listing_json)
       (simp_all add: newListing_def ToBoolean_defined or_else_defined del: get_prop.simps)
  with assms show ?thesis
    by (simp add: post_listings_def writeListings_def json_def del: get_prop.simps)
qed

lemma StringToNumber_abc: "StringToNumber ''abc'' = NaN"
  unfolding StringToNumber_def Let_def by code_simp

lemma abc_body_props:
  "get_prop (JObj abc_body) ''title'' = JStr ''Lamp''"
  "get_prop (JObj abc_body) ''price'' = JStr ''abc''"
  "get_prop (JObj abc_body) ''description'' = JStr ''IKEA''"
  "get_prop (JObj abc_body) ''contact'' = JStr ''a@b.com''"
  "get_prop (JObj abc_body) ''imageUrl'' = JUndefined"
  by (simp_all add: abc_body_def)

text \<open>
  C3, as the code has it. A create request whose \<^verbatim>\<open>title\<close>, \<^verbatim>\<open>price\<close>, \<^verbatim>\<open>description\<close> and
  \<^verbatim>\<open>contact\<close> are all truthy, and whose price \<^verbatim>\<open>Number\<close> converts without throwing, is
  answered with 201 and the new listing: \<^verbatim>\<open>likes\<close> 0, \<^verbatim>\<open>sold\<close> false, the id the decimal
  notation of \<^verbatim>\<open>Date.now()\<close> (so not empty), \<^verbatim>\<open>imageUrl\<close> the empty string when none is
  given, \<^verbatim>\<open>createdAt\<close> the ISO notation of the clock reading taken while the request is
  handled (not earlier than the arrival of the request, on a clock that does not run
  backwards). Exactly this record is added at the end of the collection, which is then
  written. (The store can be read, it holds JSON, and \<^verbatim>\<open>fs.writeFile\<close> succeeds.)
\<close>

theorem create_appends:
  assumes "ToBoolean (get_prop (JObj req_body) ''title'')"
      and "ToBoolean (get_prop (JObj req_body) ''price'')"
      and "ToBoolean (get_prop (JObj req_body) ''description'')"
      and "ToBoolean (get_prop (JObj req_body) ''contact'')"
      and "Number (get_prop (JObj req_body) ''price'') = Inr n"
      and "readListings v s = Inr ls" and "list_all json_listing ls"
      and "write_error s = None"
      and "t_req \<le> date"
  shows "\<exists>l. post_listings v now date req_body s =
             (\<lparr>status = 201, body = listing_json l\<rparr>,
              s\<lparr>doc := Document (ls @ [l]), writes := Suc (writes s)\<rparr>)
           \<and> l = stringify_listing (newListing now date req_body n)
           \<and> likes l = 0 \<and> \<not> sold l \<and> id_of l = toString now \<and> id_of l \<noteq> []
           \<and> (\<not> ToBoolean (get_prop (JObj req_body) ''imageUrl'') \<longrightarrow> imageUrl l = JStr [])
           \<and> (\<exists>t\<ge>t_req. createdAt l = toISOString t)"
proof -
  let ?l = "stringify_listing (newListing now date req_body n)"
  have "post_listings v now date req_body s =
          (\<lparr>status = 201, body = listing_json ?l\<rparr>,
           s\<lparr>doc := Document (ls @ [?l]), writes := Suc (writes s)\<rparr>)"
    using create_ok [OF assms(1-6,8)] map_stringify_json [OF assms(7)] by simp
  moreover have "likes ?l = 0" "\<not> sold ?l" "id_of ?l = toString now"
    "createdAt ?l = toISOString date"
    by (simp_all add: newListing_def)
  moreover have "imageUrl ?l = JStr []" if "\<not> ToBoolean (get_prop (JObj req_body) ''imageUrl'')"
    using that by (simp add: stringify_listing_def newListing_def or_else_def del: get_prop.simps)
  ultimately show ?thesis
    using assms(9) toString_not_empty [of now] by (intro exI [of _ ?l]) auto
qed

theorem create_appends_witness:
  "ToBoolean (get_prop (JObj lamp_body) ''title'')
   \<and> ToBoolean (get_prop (JObj lamp_body) ''price'')
   \<and> ToBoolean (get_prop (JObj lamp_body) ''description'')
   \<and> ToBoolean (get_prop (JObj lamp_body) ''contact'')
   \<and> Number (get_prop (JObj lamp_body) ''price'') = Inr (Finite 20)
   \<and> readListings IndexJs (disk (Document [])) = Inr []
   \<and> list_all json_listing [] \<and> write_error (disk (Document [])) = None
   \<and> (1699999999990::int) \<le> 1700000000000
   \<and> post_listings IndexJs 1700000000000 1700000000000 lamp_body (disk (Document [])) =
       (\<lparr>status = 201, body = listing_json lamp\<rparr>,
        \<lparr>doc = Document [lamp], write_error = None, writes = 1\<rparr>)
   \<and> likes lamp = 0 \<and> \<not> sold lamp \<and> imageUrl lamp = JStr []"
proof -
  have h: "ToBoolean (get_prop (JObj lamp_body) ''title'')"
    "ToBoolean (get_prop (JObj lamp_body) ''price'')"
    "ToBoolean (get_prop (JObj lamp_body) ''description'')"
    "ToBoolean (get_prop (JObj lamp_body) ''contact'')"
    "Number (get_prop (JObj lamp_body) ''price'') = Inr (Finite 20)"
    by (simp_all add: lamp_body_props del: get_prop.simps)
  have r: "readListings IndexJs (disk (Document [])) = Inr []"
    by (simp add: readListings_def parse_file_def disk_def)
  have j: "list_all json_listing []"
    by simp
  have w: "write_error (disk (Document [])) = None"
    by (simp add: disk_def)
  have t: "(1699999999990::int) \<le> 1700000000000"
    by simp
  have s: "stringify_listing lamp = lamp"
    using json_listing_lamp by (simp add: json_listing_def)
  from create_appends [OF h r j w t, of 1700000000000] h r j w t s show ?thesis
    by (simp add: newListing_lamp disk_def lamp_body_props del: get_prop.simps)
qed

text \<open>
  C3 as stated fails for a price that is truthy but cannot be converted: for the body
  \<^verbatim>\<open>{"title": "Lamp", "price": {"toString": 1}, "description": "IKEA", "contact": "a@b.com"}\<close>
  \<^verbatim>\<open>Number(price)\<close> throws, the handler answers 500 and nothing is stored.
\<close>

theorem create_fails_on_unconvertible_price:
  "ToBoolean (get_prop (JObj odd_price_body) ''title'')
   \<and> ToBoolean (get_prop (JObj odd_price_body) ''price'')
   \<and> ToBoolean (get_prop (JObj odd_price_body) ''description'')
   \<and> ToBoolean (get_prop (JObj odd_price_body) ''contact'')
   \<and> status (fst (post_listings IndexJs 1700000000000 1700000000000 odd_price_body
         (disk (Document [])))) \<noteq> 201
   \<and> stored (snd (post_listings IndexJs 1700000000000 1700000000000 odd_price_body
         (disk (Document [])))) = []"
  by (simp add: odd_price_body_def post_listings_def readListings_def parse_file_def disk_def
      stored_def)

text \<open>
  C10, as the code has it. A create request whose price is a string that is not empty and
  not numeric passes the validation; \<^verbatim>\<open>Number(price)\<close> is \<open>NaN\<close> and the new object holds
  it, but \<^verbatim>\<open>JSON.stringify\<close> writes \<open>NaN\<close> as \<^verbatim>\<open>null\<close>: the listing in the document and in
  the 201 reply has the price \<^verbatim>\<open>null\<close>. So a listing whose price is not a number does get
  into the collection. (The other required fields are truthy, the store can be read and
  \<^verbatim>\<open>fs.writeFile\<close> succeeds.)
\<close>

theorem non_numeric_price_stored_as_null:
  assumes "get_prop (JObj req_body) ''price'' = JStr p" and "p \<noteq> []"
      and "StringToNumber p = NaN"
      and "ToBoolean (get_prop (JObj req_body) ''title'')"
      and "ToBoolean (get_prop (JObj req_body) ''description'')"
      and "ToBoolean (get_prop (JObj req_body) ''contact'')"
      and "readListings v s = Inr ls" and "write_error s = None"
  shows "Number (get_prop (JObj req_body) ''price'') = Inr NaN
       \<and> price (newListing now date req_body NaN) = JNum NaN
       \<and> (\<exists>l. post_listings v now date req_body s =
                 (\<lparr>status = 201, body = listing_json l\<rparr>,
                  s\<lparr>doc := Document (map stringify_listing ls @ [l]),
                    writes := Suc (writes s)\<rparr>)
               \<and> l = stringify_listing (newListing now date req_body NaN)
               \<and> price l = JNull \<and> get_prop (listing_json l) ''price'' = JNull)"
proof -
  have n: "Number (get_prop (JObj req_body) ''price'') = Inr NaN"
    using assms(1,3) by simp
  have t: "ToBoolean (get_prop (JObj req_body) ''price'')"
    using assms(1,2) by simp
  let ?l = "stringify_listing (newListing now date req_body NaN)"
  have "price ?l = JNull"
    by (simp add: stringify_listing_def newListing_def)
  moreover from this have "get_prop (listing_json ?l) ''price'' = JNull"
    by (simp add: listing_json_def)
  moreover have "price (newListing now date req_body NaN) = JNum NaN"
    by (simp add: newListing_def)
  ultimately show ?thesis
    using n create_ok [OF assms(4) t assms(5,6) n assms(7,8)] by blast
qed

theorem non_numeric_price_stored_as_null_witness:
  "get_prop (JObj abc_body) ''price'' = JStr ''abc'' \<and> ''abc'' \<noteq> []
   \<and> StringToNumber ''abc'' = NaN
   \<and> ToBoolean (get_prop (JObj abc_body) ''title'')
   \<and> ToBoolean (get_prop (JObj abc_body) ''description'')
   \<and> ToBoolean (get_prop (JObj abc_body) ''contact'')
   \<and> readListings IndexJs (disk (Document [lamp])) = Inr [lamp]
   \<and> write_error (disk (Document [lamp])) = None
   \<and> Number (get_prop (JObj abc_body) ''price'') = Inr NaN
   \<and> post_listings IndexJs 1700000000000 1700000000000 abc_body (disk (Document [lamp])) =
       (\<lparr>status = 201, body = listing_json (lamp\<lparr>price := JNull\<rparr>)\<rparr>,
        \<lparr>doc = Document [lamp, lamp\<lparr>price := JNull\<rparr>], write_error = None, writes = 1\<rparr>)"
proof -
  have p: "get_prop (JObj abc_body) ''price'' = JStr ''abc''" and e: "''abc'' \<noteq> []"
    by (simp_all add: abc_body_props del: get_prop.simps)
  have h: "ToBoolean (get_prop (JObj abc_body) ''title'')"
    "ToBoolean (get_prop (JObj abc_body) ''description'')"
    "ToBoolean (get_prop (JObj abc_body) ''contact'')"
    by (simp_all add: abc_body_props del: get_prop.simps)
  have r: "readListings IndexJs (disk (Document [lamp])) = Inr [lamp]"
    by (simp add: readListings_def parse_file_def disk_def)
  have w: "write_error (disk (Document [lamp])) = None"
    by (simp add: disk_def)
  have l: "stringify_listing (newListing 1700000000000 1700000000000 abc_body NaN)
           = lamp\<lparr>price := JNull\<rparr>"
    by (simp add: stringify_listing_def newListing_def abc_body_props lamp_def
        toString_example toISOString_example or_else_def del: get_prop.simps)
  have s: "stringify_listing lamp = lamp"
    using json_listing_lamp by (simp add: json_listing_def)
  from non_numeric_price_stored_as_null [OF p e StringToNumber_abc h r w,
      of 1700000000000 1700000000000] p e StringToNumber_abc h r w l s
  show ?thesis
    by (simp add: disk_def del: get_prop.simps)
qed

text \<open>
  C10 as stated fails: for the price \<^verbatim>\<open>"abc"\<close> the value of \<^verbatim>\<open>Number(price)\<close> is \<open>NaN\<close>, and
  the price of the listing in the document is not \<open>NaN\<close>.
\<close>

theorem non_numeric_price_not_stored_as_NaN:
  "Number (get_prop (JObj abc_body) ''price'') = Inr NaN
   \<and> price (last (stored (snd (post_listings IndexJs 1700000000000 1700000000000 abc_body
         (disk (Document [])))))) \<noteq> JNum NaN"
  by (simp add: abc_body_props StringToNumber_abc post_listings_def readListings_def
      parse_file_def disk_def writeListings_def stored_def stringify_listing_def newListing_def
      del: get_prop.simps)

section \<open>The scenario of the specification\<close>

text \<open>
  On an empty store: create the lamp, like it twice, buy it, try to buy it again, delete
  it, list what is left.
\<close>

lemma scenario:
  "post_listings IndexJs 1700000000000 1700000000000 lamp_body (disk (Document []))
     = (\<lparr>status = 201, body = listing_json lamp\<rparr>,
        \<lparr>doc = Document [lamp], write_error = None, writes = 1\<rparr>)"
  "post_like IndexJs ''1700000000000'' \<lparr>doc = Document [lamp], write_error = None, writes = 1\<rparr>
     = (\<lparr>status = 200, body = JObj [(''success'', JBool True), (''likes'', JNum (Finite 1))]\<rparr>,
        \<lparr>doc = Document [lamp\<lparr>likes := 1\<rparr>], write_error = None, writes = 2\<rparr>)"
  "post_like IndexJs ''1700000000000''
       \<lparr>doc = Document [lamp\<lparr>likes := 1\<rparr>], write_error = None, writes = 2\<rparr>
     = (\<lparr>status = 200, body = JObj [(''success'', JBool True), (''likes'', JNum (Finite 2))]\<rparr>,
        \<lparr>doc = Document [lamp\<lparr>likes := 2\<rparr>], write_error = None, writes = 3\<rparr>)"
  "post_buy IndexJs ''1700000000000''
       \<lparr>doc = Document [lamp\<lparr>likes := 2\<rparr>], write_error = None, writes = 3\<rparr>
     = (\<lparr>status = 200, body = JObj [(''success'', JBool True), (''sold'', JBool True)]\<rparr>,
        \<lparr>doc = Document [lamp\<lparr>likes := 2, sold := True\<rparr>], write_error = None, writes = 4\<rparr>)"
  "post_buy IndexJs ''1700000000000''
       \<lparr>doc = Document [lamp\<lparr>likes := 2, sold := True\<rparr>], write_error = None, writes = 4\<rparr>
     = (\<lparr>status = 400, body = failure ''Already sold''\<rparr>,
        \<lparr>doc = Document [lamp\<lparr>likes := 2, sold := True\<rparr>], write_error = None, writes = 4\<rparr>)"
  "delete_listing ''1700000000000''
       \<lparr>doc = Document [lamp\<lparr>likes := 2, sold := True\<rparr>], write_error = None, writes = 4\<rparr>
     = (\<lparr>status = 200,
         body = JObj [(''success'', JBool True), (''removedId'', JStr ''1700000000000'')]\<rparr>,
        \<lparr>doc = Document [], write_error = None, writes = 5\<rparr>)"
  "get_listings IndexJs \<lparr>doc = Document [], write_error = None, writes = 5\<rparr>
     = (\<lparr>status = 200, body = JArr []\<rparr>, \<lparr>doc = Document [], write_error = None, writes = 5\<rparr>)"
proof -
  have j: "stringify_listing (lamp\<lparr>likes := n, sold := b\<rparr>) = lamp\<lparr>likes := n, sold := b\<rparr>"
    for n b
    by (simp add: stringify_listing_def lamp_def)
  have j': "stringify_listing (lamp\<lparr>likes := n\<rparr>) = lamp\<lparr>likes := n\<rparr>" for n
    by (simp add: stringify_listing_def lamp_def)
  have i: "id_of lamp = ''1700000000000''" "likes lamp = 0" "\<not> sold lamp"
    by (simp_all add: lamp_def)
  show "post_listings IndexJs 1700000000000 1700000000000 lamp_body (disk (Document []))
     = (\<lparr>status = 201, body = listing_json lamp\<rparr>,
        \<lparr>doc = Document [lamp], write_error = None, writes = 1\<rparr>)"
    using create_lamp json_listing_lamp roundtrip_listing_json [of lamp]
    by (simp add: json_def json_listing_def) (simp add: lamp_def)
  show "post_like IndexJs ''1700000000000'' \<lparr>doc = Document [lamp], write_error = None, writes = 1\<rparr>
     = (\<lparr>status = 200, body = JObj [(''success'', JBool True), (''likes'', JNum (Finite 1))]\<rparr>,
        \<lparr>doc = Document [lamp\<lparr>likes := 1\<rparr>], write_error = None, writes = 2\<rparr>)"
    by (simp add: post_like_def readListings_def parse_file_def writeListings_def json_def
        add_one_def i j')
  show "post_like IndexJs ''1700000000000''
       \<lparr>doc = Document [lamp\<lparr>likes := 1\<rparr>], write_error = None, writes = 2\<rparr>
     = (\<lparr>status = 200, body = JObj [(''success'', JBool True), (''likes'', JNum (Finite 2))]\<rparr>,
        \<lparr>doc = Document [lamp\<lparr>likes := 2\<rparr>], write_error = None, writes = 3\<rparr>)"
    by (simp add: post_like_def readListings_def parse_file_def writeListings_def json_def
        add_one_def i j')
  show "post_buy IndexJs ''1700000000000''
       \<lparr>doc = Document [lamp\<lparr>likes := 2\<rparr>], write_error = None, writes = 3\<rparr>
     = (\<lparr>status = 200, body = JObj [(''success'', JBool True), (''sold'', JBool True)]\<rparr>,
        \<lparr>doc = Document [lamp\<lparr>likes := 2, sold := True\<rparr>], write_error = None, writes = 4\<rparr>)"
    by (simp add: post_buy_def readListings_def parse_file_def writeListings_def json_def i j)
  show "post_buy IndexJs ''1700000000000''
       \<lparr>doc = Document [lamp\<lparr>likes := 2, sold := True\<rparr>], write_error = None, writes = 4\<rparr>
     = (\<lparr>status = 400, body = failure ''Already sold''\<rparr>,
        \<lparr>doc = Document [lamp\<lparr>likes := 2, sold := True\<rparr>], write_error = None, writes = 4\<rparr>)"
    by (simp add: post_buy_def readListings_def parse_file_def i)
  show "delete_listing ''1700000000000''
       \<lparr>doc = Document [lamp\<lparr>likes := 2, sold := True\<rparr>], write_error = None, writes = 4\<rparr>
     = (\<lparr>status = 200,
         body = JObj [(''success'', JBool True), (''removedId'', JStr ''1700000000000'')]\<rparr>,
        \<lparr>doc = Document [], write_error = None, writes = 5\<rparr>)"
    by (simp add: delete_listing_def readListings_def parse_file_def writeListings_def json_def
        splice1_def i)
  show "get_listings IndexJs \<lparr>doc = Document [], write_error = None, writes = 5\<rparr>
     = (\<lparr>status = 200, body = JArr []\<rparr>, \<lparr>doc = Document [], write_error = None, writes = 5\<rparr>)"
    by (simp add: get_listings_def readListings_def parse_file_def json_def)
qed

end
